theory Spec2Isabelle
  imports Complex_Main "HOL-Library.Sublist"
begin

section \<open>The example notebooks of geoai as programs\<close>

text \<open>
  The two sources are Jupyter notebooks: \<^verbatim>\<open>instance_segmentation.ipynb\<close> and
  \<^verbatim>\<open>docs/examples/building_detection_lidar.ipynb\<close>. Their code cells are short Python
  scripts that call into the \<^verbatim>\<open>geoai\<close> package. The cells are transcribed below as
  abstract syntax, statement by statement, and run by an interpreter for the Python
  constructs they use: the syntax has one form for each construct of the notebooks and no
  more, but for the exception handler, which no cell has: it is there so that this can
  be said. The \<^verbatim>\<open>geoai\<close> functions themselves are not among the sources: the interpreter
  takes them as a parameter (a library that answers every call, possibly with an
  exception, and may change the file system), and records each call in a trace.
\<close>

subsection \<open>Values, exceptions, the file system\<close>

text \<open>\<open>LibraryError\<close> stands for every exception class not named here.\<close>

datatype pyerr =
    NameError | TypeError | ValueError | KeyError | AttributeError | StopIteration
  | ImportError | FileExistsError | FileNotFoundError | NotADirectoryError
  | PermissionError | OSError | IndexingError | LibraryError

text \<open>
  A float is kept as the rational it denotes (or an infinity, or NaN); rounding to binary64
  is not modelled. Floats are compared with integers, which is exact on binary64 values,
  and added by \<^verbatim>\<open>sum\<close>, where the model's result is the exact sum.
\<close>

datatype flt = Finite rat | PosInf | NegInf | NaN

text \<open>
  Strings are kept as their bytes in UTF-8. \<open>VFrame cols rows\<close> is a pandas data frame with
  the column labels \<open>cols\<close> and the default row index; \<open>VSeries\<close> is one of its columns, or
  a boolean mask over its rows. \<open>VGen vs\<close> is a fresh iterator that will give the items
  \<open>vs\<close>. \<open>VObj\<close> is an object of a class the library defines: what its methods, operators
  and attributes do is the library's answer.
\<close>

datatype val =
    VNone
  | VBool bool
  | VInt int
  | VFloat flt
  | VStr string
  | VPath "string list"
  | VTuple "val list"
  | VList "val list"
  | VDict "(string \<times> val) list"
  | VFrame "string list" "val list list"
  | VSeries "val list"
  | VGen "val list"
  | VModule string
  | VFunc string
  | VTypeOf val
  | VObj nat

datatype kind = File | Dir

text \<open>A file system maps the parts of a path to what is there. The path with no parts is
  the working directory, and the single parts \<^verbatim>\<open>/\<close> and \<^verbatim>\<open>//\<close> are roots: all are
  directories. A part \<^verbatim>\<open>..\<close> is kept as a name, as \<^verbatim>\<open>pathlib\<close> keeps it; the model has no
  links and does not follow \<^verbatim>\<open>..\<close> to the parent.\<close>

type_synonym fs = "string list \<Rightarrow> kind option"

definition is_root :: "string list \<Rightarrow> bool" where
  "is_root p = (p = [''/''] \<or> p = [''//''])"

definition lookup :: "fs \<Rightarrow> string list \<Rightarrow> kind option" where
  "lookup f p = (if p = [] \<or> is_root p then Some Dir else f p)"

text \<open>\<^verbatim>\<open>Path.parent\<close>: a root and the path with no parts are their own parents.\<close>

definition parent :: "string list \<Rightarrow> string list" where
  "parent p = (if is_root p then p else butlast p)"

text \<open>Splitting a path string at \<^verbatim>\<open>/\<close>, as \<^verbatim>\<open>pathlib\<close> does on POSIX: empty parts and
  \<^verbatim>\<open>.\<close> parts are dropped; one leading \<^verbatim>\<open>/\<close>, or three and more, are the root \<^verbatim>\<open>/\<close>;
  exactly two are the root \<^verbatim>\<open>//\<close>.\<close>

fun split_slash :: "string \<Rightarrow> string \<Rightarrow> string list" where
  "split_slash acc [] = [rev acc]"
| "split_slash acc (c # cs) =
     (if c = CHR ''/'' then rev acc # split_slash [] cs else split_slash (c # acc) cs)"

definition root_of :: "string \<Rightarrow> string list" where
  "root_of s =
     (if take 2 s = ''//'' \<and> take 3 s \<noteq> ''///'' then [''//'']
      else if take 1 s = ''/'' then [''/'']
      else [])"

definition path_parts :: "string \<Rightarrow> string list" where
  "path_parts s = root_of s @ filter (\<lambda>p. p \<noteq> [] \<and> p \<noteq> ''.'') (split_slash [] s)"

fun join_parts :: "string list \<Rightarrow> string" where
  "join_parts [] = ''.''"
| "join_parts [p] = p"
| "join_parts (p # q # ps) =
     (if is_root [p] then p @ join_parts (q # ps) else p @ ''/'' @ join_parts (q # ps))"

definition path_div :: "string list \<Rightarrow> string \<Rightarrow> string list" where
  "path_div p s = (if root_of s \<noteq> [] then path_parts s else p @ path_parts s)"

text \<open>
  \<^verbatim>\<open>os.mkdir(p)\<close>. The operating system may refuse for reasons the file system of the
  model does not show (permissions, a name too long, a read-only or full disk): \<open>deny\<close>
  says so, given what is there and the path. Otherwise the path must be new and its parent
  an existing directory.
\<close>

definition os_mkdir :: "(fs \<Rightarrow> string list \<Rightarrow> pyerr option) \<Rightarrow> fs \<Rightarrow> string list \<Rightarrow> pyerr + fs" where
  "os_mkdir deny f p =
     (case deny f p of
        Some e \<Rightarrow> Inl e
      | None \<Rightarrow>
          if lookup f p \<noteq> None then Inl FileExistsError
          else case lookup f (butlast p) of
                 None \<Rightarrow> Inl FileNotFoundError
               | Some File \<Rightarrow> Inl NotADirectoryError
               | Some Dir \<Rightarrow> Inr (f(p \<mapsto> Dir)))"

text \<open>\<^verbatim>\<open>Path.is_dir()\<close>: a path the operating system refuses to look at is no directory.\<close>

definition is_dir :: "(fs \<Rightarrow> string list \<Rightarrow> pyerr option) \<Rightarrow> fs \<Rightarrow> string list \<Rightarrow> bool" where
  "is_dir deny f p = (deny f p = None \<and> lookup f p = Some Dir)"

text \<open>
  \<^verbatim>\<open>Path.mkdir(parents, exist_ok)\<close>, after the standard library:
  \<^verbatim>\<open>
    try: os.mkdir(self)
    except FileNotFoundError:
        if not parents or self.parent == self: raise
        self.parent.mkdir(parents=True, exist_ok=True)
        self.mkdir(parents=False, exist_ok=exist_ok)
    except OSError:
        if not exist_ok or not self.is_dir(): raise
  \<close>
\<close>

function path_mkdir ::
  "(fs \<Rightarrow> string list \<Rightarrow> pyerr option) \<Rightarrow> fs \<Rightarrow> string list \<Rightarrow> bool \<Rightarrow> bool \<Rightarrow> pyerr option \<times> fs"
where
  "path_mkdir deny f p parents exist_ok =
     (case os_mkdir deny f p of
        Inr f' \<Rightarrow> (None, f')
      | Inl e \<Rightarrow>
          if e = FileNotFoundError then
            (if \<not> parents \<or> parent p = p then (Some e, f)
             else case path_mkdir deny f (parent p) True True of
                    (Some e', f') \<Rightarrow> (Some e', f')
                  | (None, f') \<Rightarrow> path_mkdir deny f' p False exist_ok)
          else if \<not> exist_ok \<or> \<not> is_dir deny f p then (Some e, f)
          else (None, f))"
  by pat_completeness auto
termination
  by (relation "measure (\<lambda>(deny, f, p, parents, exist_ok). 2 * length p + (if parents then 1 else 0))")
     (auto simp: parent_def split: if_splits, case_tac p, simp_all)

declare path_mkdir.simps [simp del]

subsection \<open>The state of a run and the library\<close>

text \<open>What the library sees and may change: the files, what the operating system refuses,
  the process environment, and a state of its own that the notebooks never look at.\<close>

record 'x world =
  files :: fs
  refuses :: "fs \<Rightarrow> string list \<Rightarrow> pyerr option"
  environ :: "string \<Rightarrow> string option"
  hidden :: 'x

text \<open>One call of a \<^verbatim>\<open>geoai\<close> function, with the values it was given and its answer.\<close>

record event =
  op :: string
  pos_args :: "val list"
  kw_args :: "(string \<times> val) list"
  answer :: "pyerr + val"

record 'x state =
  env :: "string \<Rightarrow> val option"
  world :: "'x world"
  stdout :: "string list"
  trace :: "event list"

text \<open>
  The library, as far as the notebooks depend on it: what importing the package does, the
  functions of the package, the methods (operators among them, under their special
  names) and the attributes of the objects it hands out, and the text form of the values
  whose text the model leaves open: \<open>repr\<close> for every value but \<^verbatim>\<open>None\<close>, booleans,
  integers, strings and paths, and \<open>float_text x d\<close> for a float, either as \<^verbatim>\<open>str\<close> gives it
  (\<open>d = None\<close>) or with \<open>n\<close> digits after the point (\<open>d = Some n\<close>).
\<close>

record 'x lib =
  on_import :: "string \<Rightarrow> 'x world \<Rightarrow> pyerr option \<times> 'x world"
  lib_call :: "string \<Rightarrow> val list \<Rightarrow> (string \<times> val) list \<Rightarrow> 'x world \<Rightarrow> (pyerr + val) \<times> 'x world"
  obj_call :: "val \<Rightarrow> string \<Rightarrow> val list \<Rightarrow> 'x world \<Rightarrow> (pyerr + val) \<times> 'x world"
  obj_attr :: "val \<Rightarrow> string \<Rightarrow> pyerr + val"
  repr :: "val \<Rightarrow> string"
  float_text :: "flt \<Rightarrow> nat option \<Rightarrow> string"

subsection \<open>Syntax of the notebooks\<close>

text \<open>
  The built-in functions the notebooks call with one argument, \<^verbatim>\<open>Path\<close> (imported from
  \<^verbatim>\<open>pathlib\<close>) among them, and the methods they call: \<open>MkdirAll\<close> is
  \<^verbatim>\<open>.mkdir(parents=True, exist_ok=True)\<close>, the others take no argument.
\<close>

datatype builtin = BPrint | BLen | BStr | BNext | BType | BPath

datatype meth = MkdirAll | Items | Parameters | Numel

text \<open>
  Expressions. \<open>Geoai f args\<close> is the call \<^verbatim>\<open>geoai.f(args)\<close>; \<open>Call f e\<close> is \<^verbatim>\<open>f(e)\<close>;
  \<open>FString\<close> is an f-string, whose parts are literal text (\<open>Str\<close>) and replacement
  fields: \<open>Fmt e None\<close> for \<^verbatim>\<open>{e}\<close> and \<open>Fmt e (Some n)\<close> for \<^verbatim>\<open>{e:.nf}\<close>; \<open>Device e\<close> is
  \<^verbatim>\<open>e.device\<close>; \<open>Div e t\<close> is \<^verbatim>\<open>e / "t"\<close> and \<open>Gt e n\<close> is \<^verbatim>\<open>e > n\<close>, for a string and an
  integer literal; \<open>SumOver b x it\<close> is \<^verbatim>\<open>sum(b for x in it)\<close>, the sum over a generator
  expression.
\<close>

datatype expr =
    Str string
  | Num int
  | Dec int nat
  | Bool bool
  | NoneLit
  | Var string
  | FString "expr list"
  | Fmt expr "nat option"
  | Tuple "expr list"
  | ListE "expr list"
  | Dict "item list"
  | Geoai string "arg list"
  | Call builtin expr
  | OsPathExists expr
  | Method expr meth
  | Device expr
  | Div expr string
  | Gt expr int
  | Subscript expr expr
  | SumOver expr string expr
and arg = Pos expr | Kw string expr | StarStar expr
and item = Item string expr

text \<open>Targets: a name, a tuple of names, and \<^verbatim>\<open>os.environ[k]\<close>. Statements: \<open>Import m\<close> is
  \<^verbatim>\<open>import m\<close> for \<^verbatim>\<open>os\<close> and \<^verbatim>\<open>geoai\<close>, \<open>ImportPath\<close> is
  \<^verbatim>\<open>from pathlib import Path\<close>, and \<open>Try a h\<close> is \<^verbatim>\<open>try: a except: h\<close>.\<close>

datatype target = Name string | Names "string list" | Environ string

datatype stmt =
    Import string
  | ImportPath
  | Assign target expr
  | Expr expr
  | If expr "stmt list" "stmt list"
  | For target expr "stmt list"
  | Try "stmt list" "stmt list"

subsection \<open>Built-in operations\<close>

fun show_nat :: "nat \<Rightarrow> string" where
  "show_nat n =
     (if n < 10 then [char_of (48 + n)] else show_nat (n div 10) @ [char_of (48 + n mod 10)])"

declare show_nat.simps [simp del]

definition show_int :: "int \<Rightarrow> string" where
  "show_int i = (if i < 0 then CHR ''-'' # show_nat (nat (- i)) else show_nat (nat i))"

text \<open>The characters of a string: a byte that continues a character in UTF-8 belongs to
  the character begun before it.\<close>

definition is_cont :: "char \<Rightarrow> bool" where
  "is_cont c = (128 \<le> (of_char c :: nat) \<and> (of_char c :: nat) < 192)"

fun code_points :: "string \<Rightarrow> string list" where
  "code_points [] = []"
| "code_points (c # cs) =
     (case code_points cs of
        [] \<Rightarrow> [[c]]
      | g # gs \<Rightarrow> if is_cont (hd g) then (c # g) # gs else [c] # g # gs)"

text \<open>\<^verbatim>\<open>str(v)\<close>.\<close>

definition str_of :: "'x lib \<Rightarrow> val \<Rightarrow> string" where
  "str_of L v =
     (case v of
        VNone \<Rightarrow> ''None''
      | VBool b \<Rightarrow> (if b then ''True'' else ''False'')
      | VInt i \<Rightarrow> show_int i
      | VFloat x \<Rightarrow> float_text L x None
      | VStr s \<Rightarrow> s
      | VPath p \<Rightarrow> join_parts p
      | _ \<Rightarrow> repr L v)"

text \<open>\<^verbatim>\<open>format(v, ".nf")\<close> for the values whose classes Python defines: numbers are
  printed with \<open>n\<close> digits, a string refuses the code \<^verbatim>\<open>f\<close>, every other class refuses
  a format.\<close>

definition format_fixed :: "'x lib \<Rightarrow> val \<Rightarrow> nat \<Rightarrow> pyerr + string" where
  "format_fixed L v n =
     (case v of
        VFloat x \<Rightarrow> Inr (float_text L x (Some n))
      | VInt i \<Rightarrow> Inr (float_text L (Finite (of_int i)) (Some n))
      | VBool b \<Rightarrow> Inr (float_text L (Finite (if b then 1 else 0)) (Some n))
      | VStr s \<Rightarrow> Inl ValueError
      | _ \<Rightarrow> Inl TypeError)"

text \<open>The truth of a value of a class of Python or pandas: pandas refuses to say whether
  a frame or a series is true.\<close>

definition truth :: "val \<Rightarrow> pyerr + bool" where
  "truth v =
     (case v of
        VNone \<Rightarrow> Inr False
      | VBool b \<Rightarrow> Inr b
      | VInt i \<Rightarrow> Inr (i \<noteq> 0)
      | VFloat x \<Rightarrow> Inr (x \<noteq> Finite 0)
      | VStr s \<Rightarrow> Inr (s \<noteq> [])
      | VTuple vs \<Rightarrow> Inr (vs \<noteq> [])
      | VList vs \<Rightarrow> Inr (vs \<noteq> [])
      | VDict kvs \<Rightarrow> Inr (kvs \<noteq> [])
      | VFrame cols rows \<Rightarrow> Inl ValueError
      | VSeries cells \<Rightarrow> Inl ValueError
      | _ \<Rightarrow> Inr True)"

text \<open>\<^verbatim>\<open>len(v)\<close>: a string has as many items as characters, a frame as rows.\<close>

definition len_of :: "val \<Rightarrow> pyerr + val" where
  "len_of v =
     (case v of
        VStr s \<Rightarrow> Inr (VInt (int (length (code_points s))))
      | VTuple vs \<Rightarrow> Inr (VInt (int (length vs)))
      | VList vs \<Rightarrow> Inr (VInt (int (length vs)))
      | VDict kvs \<Rightarrow> Inr (VInt (int (length kvs)))
      | VFrame cols rows \<Rightarrow> Inr (VInt (int (length rows)))
      | VSeries cells \<Rightarrow> Inr (VInt (int (length cells)))
      | _ \<Rightarrow> Inl TypeError)"

text \<open>The items a \<^verbatim>\<open>for\<close>, a generator expression or the unpacking into a tuple of
  names runs over: a string gives its characters, a dictionary its keys, a frame
  its column labels.\<close>

definition iter_of :: "val \<Rightarrow> pyerr + val list" where
  "iter_of v =
     (case v of
        VStr s \<Rightarrow> Inr (map VStr (code_points s))
      | VTuple vs \<Rightarrow> Inr vs
      | VList vs \<Rightarrow> Inr vs
      | VDict kvs \<Rightarrow> Inr (map (\<lambda>kv. VStr (fst kv)) kvs)
      | VFrame cols rows \<Rightarrow> Inr (map VStr cols)
      | VSeries cells \<Rightarrow> Inr cells
      | VGen vs \<Rightarrow> Inr vs
      | _ \<Rightarrow> Inl TypeError)"

text \<open>Storing a key of a dictionary display: a repeated key keeps its place and takes the
  later value.\<close>

fun dict_set :: "(string \<times> val) list \<Rightarrow> string \<Rightarrow> val \<Rightarrow> (string \<times> val) list" where
  "dict_set [] k v = [(k, v)]"
| "dict_set ((k', v') # kvs) k v = (if k' = k then (k, v) # kvs else (k', v') # dict_set kvs k v)"

definition build_dict :: "(string \<times> val) list \<Rightarrow> (string \<times> val) list" where
  "build_dict kvs = foldl (\<lambda>d kv. dict_set d (fst kv) (snd kv)) [] kvs"

text \<open>Numbers: a boolean counts as 0 or 1.\<close>

definition num_of :: "val \<Rightarrow> flt option" where
  "num_of v =
     (case v of
        VInt i \<Rightarrow> Some (Finite (of_int i))
      | VBool b \<Rightarrow> Some (Finite (if b then 1 else 0))
      | VFloat x \<Rightarrow> Some x
      | _ \<Rightarrow> None)"

definition flt_gt :: "flt \<Rightarrow> int \<Rightarrow> bool" where
  "flt_gt x n =
     (case x of Finite r \<Rightarrow> of_int n < r | PosInf \<Rightarrow> True | NegInf \<Rightarrow> False | NaN \<Rightarrow> False)"

text \<open>\<^verbatim>\<open>v > n\<close> for a value that is no frame and no series: defined for numbers only.\<close>

definition scalar_gt :: "val \<Rightarrow> int \<Rightarrow> pyerr + bool" where
  "scalar_gt v n = (case num_of v of None \<Rightarrow> Inl TypeError | Some x \<Rightarrow> Inr (flt_gt x n))"

text \<open>\<^verbatim>\<open>cell > n\<close> for one cell of a column, as pandas compares it: a missing cell
  (\<^verbatim>\<open>None\<close>, NaN) is not greater than anything, every other cell is compared as Python
  compares it.\<close>

definition cell_gt :: "val \<Rightarrow> int \<Rightarrow> pyerr + bool" where
  "cell_gt c n = (if c = VNone then Inr False else scalar_gt c n)"

fun cells_gt :: "val list \<Rightarrow> int \<Rightarrow> pyerr + val list" where
  "cells_gt [] n = Inr []"
| "cells_gt (c # cs) n =
     (case cell_gt c n of
        Inl e \<Rightarrow> Inl e
      | Inr b \<Rightarrow> (case cells_gt cs n of Inl e \<Rightarrow> Inl e | Inr bs \<Rightarrow> Inr (VBool b # bs)))"

fun rows_gt :: "val list list \<Rightarrow> int \<Rightarrow> pyerr + val list list" where
  "rows_gt [] n = Inr []"
| "rows_gt (r # rs) n =
     (case cells_gt r n of
        Inl e \<Rightarrow> Inl e
      | Inr b \<Rightarrow> (case rows_gt rs n of Inl e \<Rightarrow> Inl e | Inr bs \<Rightarrow> Inr (b # bs)))"

text \<open>\<^verbatim>\<open>v > n\<close>: cell by cell on a series and on a frame.\<close>

definition op_gt :: "val \<Rightarrow> int \<Rightarrow> pyerr + val" where
  "op_gt v n =
     (case v of
        VSeries cells \<Rightarrow> (case cells_gt cells n of Inl e \<Rightarrow> Inl e | Inr bs \<Rightarrow> Inr (VSeries bs))
      | VFrame cols rows \<Rightarrow>
          (case rows_gt rows n of Inl e \<Rightarrow> Inl e | Inr bs \<Rightarrow> Inr (VFrame cols bs))
      | _ \<Rightarrow> (case scalar_gt v n of Inl e \<Rightarrow> Inl e | Inr b \<Rightarrow> Inr (VBool b)))"

text \<open>\<^verbatim>\<open>v / "t"\<close>: a path is joined with the string. No other value of a class of Python
  can be divided by a string; pandas divides cell by cell and leaves a missing cell
  missing.\<close>

definition cell_div :: "val \<Rightarrow> string \<Rightarrow> pyerr + val" where
  "cell_div c t =
     (case c of
        VNone \<Rightarrow> Inr (VFloat NaN)
      | VFloat x \<Rightarrow> (if x = NaN then Inr (VFloat NaN) else Inl TypeError)
      | VPath p \<Rightarrow> Inr (VPath (path_div p t))
      | _ \<Rightarrow> Inl TypeError)"

fun cells_div :: "val list \<Rightarrow> string \<Rightarrow> pyerr + val list" where
  "cells_div [] t = Inr []"
| "cells_div (c # cs) t =
     (case cell_div c t of
        Inl e \<Rightarrow> Inl e
      | Inr d \<Rightarrow> (case cells_div cs t of Inl e \<Rightarrow> Inl e | Inr ds \<Rightarrow> Inr (d # ds)))"

fun rows_div :: "val list list \<Rightarrow> string \<Rightarrow> pyerr + val list list" where
  "rows_div [] t = Inr []"
| "rows_div (r # rs) t =
     (case cells_div r t of
        Inl e \<Rightarrow> Inl e
      | Inr d \<Rightarrow> (case rows_div rs t of Inl e \<Rightarrow> Inl e | Inr ds \<Rightarrow> Inr (d # ds)))"

definition op_div :: "val \<Rightarrow> string \<Rightarrow> pyerr + val" where
  "op_div v t =
     (case v of
        VPath p \<Rightarrow> Inr (VPath (path_div p t))
      | VSeries cells \<Rightarrow> (case cells_div cells t of Inl e \<Rightarrow> Inl e | Inr ds \<Rightarrow> Inr (VSeries ds))
      | VFrame cols rows \<Rightarrow>
          (case rows_div rows t of Inl e \<Rightarrow> Inl e | Inr ds \<Rightarrow> Inr (VFrame cols ds))
      | _ \<Rightarrow> Inl TypeError)"

text \<open>The columns of a frame with a given label; a row too short for a column reads as
  NaN there. One column is a series, several columns with the same label are a frame.\<close>

definition cell_at :: "nat \<Rightarrow> val list \<Rightarrow> val" where
  "cell_at i r = (if i < length r then r ! i else VFloat NaN)"

definition places :: "string list \<Rightarrow> string \<Rightarrow> nat list" where
  "places cols c = filter (\<lambda>i. cols ! i = c) [0..<length cols]"

definition column :: "string list \<Rightarrow> val list list \<Rightarrow> string \<Rightarrow> pyerr + val" where
  "column cols rows c =
     (case places cols c of
        [] \<Rightarrow> Inl KeyError
      | [i] \<Rightarrow> Inr (VSeries (map (cell_at i) rows))
      | i # j # js \<Rightarrow>
          Inr (VFrame (map (\<lambda>k. c) (i # j # js)) (map (\<lambda>r. map (\<lambda>k. cell_at k r) (i # j # js)) rows)))"

text \<open>The rows of a frame that a boolean mask keeps. The mask is laid on the rows by
  position, which is how pandas aligns a mask that has the default index: a mask longer
  than the frame is cut, a shorter one cannot be aligned.\<close>

definition select_rows :: "val list list \<Rightarrow> val list \<Rightarrow> val list list" where
  "select_rows rows keep = map fst (filter (\<lambda>rb. snd rb = VBool True) (zip rows keep))"

definition is_bool :: "val \<Rightarrow> bool" where
  "is_bool v = (case v of VBool b \<Rightarrow> True | _ \<Rightarrow> False)"

text \<open>\<^verbatim>\<open>frame[mask]\<close> for a mask that is a frame: pandas keeps the cells the mask marks and
  puts NaN for the others, after laying the mask on the frame by labels, which it refuses
  when the labels differ and a label is repeated. A column or a row the mask lacks is
  not marked.\<close>

definition mask_at :: "string list \<Rightarrow> val list \<Rightarrow> string \<Rightarrow> bool" where
  "mask_at mcols mrow c = (case places mcols c of [] \<Rightarrow> False | i # js \<Rightarrow> cell_at i mrow = VBool True)"

definition marked :: "string list \<Rightarrow> string list \<Rightarrow> val list \<Rightarrow> nat \<Rightarrow> bool" where
  "marked cols mcols mrow j =
     (if cols = mcols then cell_at j mrow = VBool True else mask_at mcols mrow (cols ! j))"

definition where_rows :: "string list \<Rightarrow> val list list \<Rightarrow> string list \<Rightarrow> val list list \<Rightarrow> val list list" where
  "where_rows cols rows mcols mrows =
     map (\<lambda>k. map (\<lambda>j. if k < length mrows \<and> marked cols mcols (mrows ! k) j
                         then cell_at j (rows ! k) else VFloat NaN)
                   [0..<length cols])
         [0..<length rows]"

definition where_frame :: "string list \<Rightarrow> val list list \<Rightarrow> string list \<Rightarrow> val list list \<Rightarrow> pyerr + val" where
  "where_frame cols rows mcols mrows =
     (if cols \<noteq> mcols \<and> (\<not> distinct cols \<or> \<not> distinct mcols) then Inl ValueError
      else if \<not> list_all (list_all is_bool) mrows then Inl ValueError
      else Inr (VFrame cols (where_rows cols rows mcols mrows)))"

text \<open>
  \<^verbatim>\<open>a[b]\<close> for the values whose classes are Python's or pandas': a frame gives its columns
  of a label, its rows under a boolean series, its cells under a boolean frame; a
  dictionary gives the value of a key (its keys are strings, so no other value that can
  be a key is one, and a list, a dictionary, a frame or a series cannot be a key); a series
  with the default index has no label that is a string. Other subscripts of frames and
  series, and subscripts of strings, tuples and lists (which take integers and slices) do
  not occur in the notebooks: the model gives the error Python gives for a string, and
  \<open>KeyError\<close> for the others.
\<close>

definition hashable :: "val \<Rightarrow> bool" where
  "hashable v =
     (case v of
        VList vs \<Rightarrow> False | VDict kvs \<Rightarrow> False | VFrame cols rows \<Rightarrow> False
      | VSeries cells \<Rightarrow> False | _ \<Rightarrow> True)"

definition op_subscript :: "val \<Rightarrow> val \<Rightarrow> pyerr + val" where
  "op_subscript a b =
     (case a of
        VFrame cols rows \<Rightarrow>
          (case b of
             VStr c \<Rightarrow> column cols rows c
           | VSeries keep \<Rightarrow>
               (if \<not> list_all is_bool keep then Inl KeyError
                else if length keep < length rows then Inl IndexingError
                else Inr (VFrame cols (select_rows rows keep)))
           | VFrame mcols mrows \<Rightarrow> where_frame cols rows mcols mrows
           | _ \<Rightarrow> Inl KeyError)
      | VDict kvs \<Rightarrow>
          (case b of
             VStr k \<Rightarrow> (case map_of kvs k of None \<Rightarrow> Inl KeyError | Some v \<Rightarrow> Inr v)
           | _ \<Rightarrow> if hashable b then Inl KeyError else Inl TypeError)
      | VSeries cells \<Rightarrow> Inl KeyError
      | _ \<Rightarrow> Inl TypeError)"

text \<open>\<^verbatim>\<open>os.path.exists(v)\<close> for a string and for a path. A string that ends in a slash, or in
  a part \<^verbatim>\<open>.\<close>, names something only if that is a directory. Other values are refused
  (an integer, which Python takes as a file descriptor, too).\<close>

definition wants_dir :: "string \<Rightarrow> bool" where
  "wants_dir s = (s \<noteq> [] \<and> (last (split_slash [] s) = [] \<or> last (split_slash [] s) = ''.''))"

definition path_exists :: "fs \<Rightarrow> val \<Rightarrow> pyerr + val" where
  "path_exists f v =
     (case v of
        VStr s \<Rightarrow>
          Inr (VBool (s \<noteq> [] \<and>
            (if wants_dir s then lookup f (path_parts s) = Some Dir
             else lookup f (path_parts s) \<noteq> None)))
      | VPath p \<Rightarrow> Inr (VBool (lookup f p \<noteq> None))
      | _ \<Rightarrow> Inl TypeError)"

text \<open>\<^verbatim>\<open>a + b\<close> as \<^verbatim>\<open>sum\<close> needs it: on numbers. The sum of integers is an integer, a float
  makes it a float.\<close>

definition flt_add :: "flt \<Rightarrow> flt \<Rightarrow> flt" where
  "flt_add x y =
     (case (x, y) of
        (Finite a, Finite b) \<Rightarrow> Finite (a + b)
      | (NaN, _) \<Rightarrow> NaN
      | (_, NaN) \<Rightarrow> NaN
      | (PosInf, NegInf) \<Rightarrow> NaN
      | (NegInf, PosInf) \<Rightarrow> NaN
      | (PosInf, _) \<Rightarrow> PosInf
      | (_, PosInf) \<Rightarrow> PosInf
      | (NegInf, _) \<Rightarrow> NegInf
      | (_, NegInf) \<Rightarrow> NegInf)"

definition int_of :: "val \<Rightarrow> int option" where
  "int_of v = (case v of VInt i \<Rightarrow> Some i | VBool b \<Rightarrow> Some (if b then 1 else 0) | _ \<Rightarrow> None)"

definition add_num :: "val \<Rightarrow> val \<Rightarrow> pyerr + val" where
  "add_num a b =
     (case (int_of a, int_of b) of
        (Some i, Some j) \<Rightarrow> Inr (VInt (i + j))
      | _ \<Rightarrow>
          (case (num_of a, num_of b) of
             (Some x, Some y) \<Rightarrow> Inr (VFloat (flt_add x y))
           | _ \<Rightarrow> Inl TypeError))"

text \<open>\<^verbatim>\<open>Path(v)\<close>.\<close>

definition path_of :: "val \<Rightarrow> pyerr + val" where
  "path_of v =
     (case v of
        VStr t \<Rightarrow> Inr (VPath (path_parts t))
      | VPath p \<Rightarrow> Inr (VPath p)
      | _ \<Rightarrow> Inl TypeError)"

subsection \<open>Operations that may ask the library\<close>

text \<open>A method of an object of the library, called with positional arguments: the library
  answers and may change the world.\<close>

definition send ::
  "'x lib \<Rightarrow> val \<Rightarrow> string \<Rightarrow> val list \<Rightarrow> 'x state \<Rightarrow> (pyerr + val) \<times> 'x state" where
  "send L v m ps s = (case obj_call L v m ps (world s) of (r, w) \<Rightarrow> (r, s\<lparr>world := w\<rparr>))"

definition is_obj :: "val \<Rightarrow> bool" where
  "is_obj v = (case v of VObj n \<Rightarrow> True | _ \<Rightarrow> False)"

text \<open>The operators and built-in functions on an object of the library are its special
  methods; on every other value they are the operations above.\<close>

definition binary ::
  "'x lib \<Rightarrow> string \<Rightarrow> (val \<Rightarrow> pyerr + val) \<Rightarrow> val \<Rightarrow> val \<Rightarrow> 'x state \<Rightarrow> (pyerr + val) \<times> 'x state" where
  "binary L m f v w s = (if is_obj v then send L v m [w] s else (f v, s))"

definition iterate :: "'x lib \<Rightarrow> val \<Rightarrow> 'x state \<Rightarrow> (pyerr + val list) \<times> 'x state" where
  "iterate L v s =
     (if is_obj v then
        (case send L v ''__iter__'' [] s of
           (Inl e, s1) \<Rightarrow> (Inl e, s1)
         | (Inr r, s1) \<Rightarrow> (case r of VGen vs \<Rightarrow> (Inr vs, s1) | _ \<Rightarrow> (Inl TypeError, s1)))
      else (iter_of v, s))"

definition length_of :: "'x lib \<Rightarrow> val \<Rightarrow> 'x state \<Rightarrow> (pyerr + val) \<times> 'x state" where
  "length_of L v s =
     (if is_obj v then
        (case send L v ''__len__'' [] s of
           (Inl e, s1) \<Rightarrow> (Inl e, s1)
         | (Inr r, s1) \<Rightarrow>
             (case r of
                VInt i \<Rightarrow> (if i < 0 then (Inl ValueError, s1) else (Inr (VInt i), s1))
              | _ \<Rightarrow> (Inl TypeError, s1)))
      else (len_of v, s))"

text \<open>\<^verbatim>\<open>next(v)\<close>: of an iterator, its first item still to come. A list is no iterator.\<close>

definition next_of :: "'x lib \<Rightarrow> val \<Rightarrow> 'x state \<Rightarrow> (pyerr + val) \<times> 'x state" where
  "next_of L v s =
     (if is_obj v then send L v ''__next__'' [] s
      else case v of
             VGen vs \<Rightarrow> (case vs of [] \<Rightarrow> (Inl StopIteration, s) | w # ws \<Rightarrow> (Inr w, s))
           | _ \<Rightarrow> (Inl TypeError, s))"

text \<open>\<^verbatim>\<open>a + b\<close>, as \<^verbatim>\<open>sum\<close> adds an item to what it has.\<close>

definition add :: "'x lib \<Rightarrow> val \<Rightarrow> val \<Rightarrow> 'x state \<Rightarrow> (pyerr + val) \<times> 'x state" where
  "add L a b s =
     (if is_obj a then send L a ''__add__'' [b] s
      else if is_obj b then send L b ''__radd__'' [a] s
      else (add_num a b, s))"

text \<open>A replacement field of an f-string.\<close>

definition format :: "'x lib \<Rightarrow> val \<Rightarrow> nat option \<Rightarrow> 'x state \<Rightarrow> (pyerr + string) \<times> 'x state" where
  "format L v d s =
     (case d of
        None \<Rightarrow> (Inr (str_of L v), s)
      | Some n \<Rightarrow>
          if is_obj v then
            (case send L v ''__format__'' [VStr (''.'' @ show_nat n @ ''f'')] s of
               (Inl e, s1) \<Rightarrow> (Inl e, s1)
             | (Inr r, s1) \<Rightarrow> (case r of VStr t \<Rightarrow> (Inr t, s1) | _ \<Rightarrow> (Inl TypeError, s1)))
          else (format_fixed L v n, s))"

text \<open>The name of a built-in function in the program, and what the name stands for when
  it is called: what the environment binds it to, else the built-in (\<^verbatim>\<open>Path\<close> is no
  built-in: it must have been imported).\<close>

definition name_of :: "builtin \<Rightarrow> string" where
  "name_of f =
     (case f of
        BPrint \<Rightarrow> ''print'' | BLen \<Rightarrow> ''len'' | BStr \<Rightarrow> ''str''
      | BNext \<Rightarrow> ''next'' | BType \<Rightarrow> ''type'' | BPath \<Rightarrow> ''Path'')"

definition resolve :: "'x state \<Rightarrow> builtin \<Rightarrow> pyerr + builtin" where
  "resolve s f =
     (case env s (name_of f) of
        None \<Rightarrow> (if f = BPath then Inl NameError else Inr f)
      | Some v \<Rightarrow> (if v = VFunc ''pathlib.Path'' then Inr BPath else Inl TypeError))"

definition call_function ::
  "'x lib \<Rightarrow> builtin \<Rightarrow> val \<Rightarrow> 'x state \<Rightarrow> (pyerr + val) \<times> 'x state" where
  "call_function L f v s =
     (case f of
        BPrint \<Rightarrow> (Inr VNone, s\<lparr>stdout := stdout s @ [str_of L v]\<rparr>)
      | BLen \<Rightarrow> length_of L v s
      | BStr \<Rightarrow> (Inr (VStr (str_of L v)), s)
      | BNext \<Rightarrow> next_of L v s
      | BType \<Rightarrow> (Inr (VTypeOf v), s)
      | BPath \<Rightarrow> (path_of v, s))"

text \<open>
  The methods. \<^verbatim>\<open>mkdir\<close> is a method of paths; \<^verbatim>\<open>items\<close> of dictionaries, and of frames
  and series, which give their columns and their cells; \<^verbatim>\<open>parameters\<close> and \<^verbatim>\<open>numel\<close> of
  no class of Python or pandas. On a frame, a name that is no method is looked up among
  the columns, and a column cannot be called.
\<close>

definition method_name :: "meth \<Rightarrow> string" where
  "method_name m =
     (case m of
        MkdirAll \<Rightarrow> ''mkdir'' | Items \<Rightarrow> ''items'' | Parameters \<Rightarrow> ''parameters''
      | Numel \<Rightarrow> ''numel'')"

definition frame_items :: "string list \<Rightarrow> val list list \<Rightarrow> val list" where
  "frame_items cols rows =
     map (\<lambda>i. VTuple [VStr (cols ! i), VSeries (map (cell_at i) rows)]) [0..<length cols]"

definition series_items :: "val list \<Rightarrow> val list" where
  "series_items cells = map (\<lambda>i. VTuple [VInt (int i), cells ! i]) [0..<length cells]"

definition call_method ::
  "'x lib \<Rightarrow> val \<Rightarrow> meth \<Rightarrow> 'x state \<Rightarrow> (pyerr + val) \<times> 'x state" where
  "call_method L v m s =
     (case v of
        VObj n \<Rightarrow>
          send L v (method_name m) (if m = MkdirAll then [VBool True, VBool True] else []) s
      | VPath p \<Rightarrow>
          (if m = MkdirAll then
             (case path_mkdir (refuses (world s)) (files (world s)) p True True of
                (r, f') \<Rightarrow>
                  ((case r of Some e \<Rightarrow> Inl e | None \<Rightarrow> Inr VNone),
                   s\<lparr>world := (world s)\<lparr>files := f'\<rparr>\<rparr>))
           else (Inl AttributeError, s))
      | VDict kvs \<Rightarrow>
          (if m = Items
           then (Inr (VList (map (\<lambda>kv. VTuple [VStr (fst kv), snd kv]) kvs)), s)
           else (Inl AttributeError, s))
      | VFrame cols rows \<Rightarrow>
          (if m = Items then (Inr (VGen (frame_items cols rows)), s)
           else if method_name m \<in> set cols then (Inl TypeError, s)
           else (Inl AttributeError, s))
      | VSeries cells \<Rightarrow>
          (if m = Items then (Inr (VGen (series_items cells)), s)
           else (Inl AttributeError, s))
      | _ \<Rightarrow> (Inl AttributeError, s))"

text \<open>\<^verbatim>\<open>v.device\<close>: an attribute of an object of the library, or the column of that label of
  a frame; no other class of Python or pandas has it.\<close>

definition get_device :: "'x lib \<Rightarrow> val \<Rightarrow> pyerr + val" where
  "get_device L v =
     (case v of
        VObj n \<Rightarrow> obj_attr L v ''device''
      | VFrame cols rows \<Rightarrow>
          (case column cols rows ''device'' of Inl e \<Rightarrow> Inl AttributeError | Inr c \<Rightarrow> Inr c)
      | _ \<Rightarrow> Inl AttributeError)"

text \<open>The arguments of a call, once evaluated: a keyword must not come twice.\<close>

definition check_args :: "val list \<times> (string \<times> val) list \<Rightarrow> pyerr + val list \<times> (string \<times> val) list" where
  "check_args a = (if distinct (map fst (snd a)) then Inr a else Inl TypeError)"

text \<open>The keywords that \<^verbatim>\<open>**v\<close> passes: the items of a dictionary, the columns of a
  frame; a series passes its index, which has no strings, so only the empty one will do.\<close>

definition keywords_of :: "val \<Rightarrow> pyerr + (string \<times> val) list" where
  "keywords_of v =
     (case v of
        VDict kvs \<Rightarrow> Inr kvs
      | VFrame cols rows \<Rightarrow>
          (if distinct cols
           then Inr (map (\<lambda>i. (cols ! i, VSeries (map (cell_at i) rows))) [0..<length cols])
           else Inl TypeError)
      | VSeries cells \<Rightarrow> (if cells = [] then Inr [] else Inl TypeError)
      | _ \<Rightarrow> Inl TypeError)"

text \<open>A call of a \<^verbatim>\<open>geoai\<close> function: the library answers, and the call is recorded.\<close>

definition call_geoai ::
  "'x lib \<Rightarrow> string \<Rightarrow> val list \<Rightarrow> (string \<times> val) list \<Rightarrow> 'x state \<Rightarrow> (pyerr + val) \<times> 'x state" where
  "call_geoai L f ps ks s =
     (case lib_call L f ps ks (world s) of
        (r, w) \<Rightarrow>
          (r, s\<lparr>world := w,
                trace := trace s @ [\<lparr>op = f, pos_args = ps, kw_args = ks, answer = r\<rparr>]\<rparr>))"


text \<open>The truth of a value as \<^verbatim>\<open>if\<close> tests it.\<close>

definition test :: "'x lib \<Rightarrow> val \<Rightarrow> 'x state \<Rightarrow> (pyerr + bool) \<times> 'x state" where
  "test L v s =
     (if is_obj v then
        (case send L v ''__bool__'' [] s of
           (Inl e, s1) \<Rightarrow> (Inl e, s1)
         | (Inr r, s1) \<Rightarrow> (case r of VBool b \<Rightarrow> (Inr b, s1) | _ \<Rightarrow> (Inl TypeError, s1)))
      else (truth v, s))"

subsection \<open>Evaluation of expressions\<close>

text \<open>
  An expression evaluates to a value or raises; either way the state it leaves is returned,
  since the calls made before an exception have happened. Arguments are evaluated from left
  to right. In \<^verbatim>\<open>sum(b for x in it)\<close> the name \<^verbatim>\<open>sum\<close> is looked up, \<open>it\<close> is evaluated and
  asked for its items, then for each item in turn \<open>b\<close> is evaluated with \<open>x\<close> bound to
  it and added to the sum so far, which starts at 0; \<open>x\<close> is local to the generator
  expression. In an f-string, an expression that is no replacement field of the forms above
  stands for the plain field of it.
\<close>

function (sequential) eval :: "'x lib \<Rightarrow> expr \<Rightarrow> 'x state \<Rightarrow> (pyerr + val) \<times> 'x state"
  and eval_list :: "'x lib \<Rightarrow> expr list \<Rightarrow> 'x state \<Rightarrow> (pyerr + val list) \<times> 'x state"
  and eval_arg :: "'x lib \<Rightarrow> arg \<Rightarrow> 'x state \<Rightarrow> (pyerr + val list \<times> (string \<times> val) list) \<times> 'x state"
  and eval_args :: "'x lib \<Rightarrow> arg list \<Rightarrow> 'x state \<Rightarrow> (pyerr + val list \<times> (string \<times> val) list) \<times> 'x state"
  and eval_item :: "'x lib \<Rightarrow> item \<Rightarrow> 'x state \<Rightarrow> (pyerr + string \<times> val) \<times> 'x state"
  and eval_items :: "'x lib \<Rightarrow> item list \<Rightarrow> 'x state \<Rightarrow> (pyerr + (string \<times> val) list) \<times> 'x state"
  and eval_sum :: "'x lib \<Rightarrow> expr \<Rightarrow> string \<Rightarrow> val list \<Rightarrow> val \<Rightarrow> 'x state \<Rightarrow> (pyerr + val) \<times> 'x state"
where
  "eval L (Str t) s = (Inr (VStr t), s)"
| "eval L (Num i) s = (Inr (VInt i), s)"
| "eval L (Dec m e) s = (Inr (VFloat (Finite (of_int m / 10 ^ e))), s)"
| "eval L (Bool b) s = (Inr (VBool b), s)"
| "eval L NoneLit s = (Inr VNone, s)"
| "eval L (Var x) s = (case env s x of None \<Rightarrow> (Inl NameError, s) | Some v \<Rightarrow> (Inr v, s))"
| "eval L (FString es) s =
     (case eval_list L es s of
        (Inl e, s1) \<Rightarrow> (Inl e, s1)
      | (Inr vs, s1) \<Rightarrow> (Inr (VStr (concat (map (str_of L) vs))), s1))"
| "eval L (Fmt e d) s =
     (case eval L e s of
        (Inl e, s1) \<Rightarrow> (Inl e, s1)
      | (Inr v, s1) \<Rightarrow>
          (case format L v d s1 of
             (Inl e, s2) \<Rightarrow> (Inl e, s2)
           | (Inr t, s2) \<Rightarrow> (Inr (VStr t), s2)))"
| "eval L (Tuple es) s =
     (case eval_list L es s of
        (Inl e, s1) \<Rightarrow> (Inl e, s1)
      | (Inr vs, s1) \<Rightarrow> (Inr (VTuple vs), s1))"
| "eval L (ListE es) s =
     (case eval_list L es s of
        (Inl e, s1) \<Rightarrow> (Inl e, s1)
      | (Inr vs, s1) \<Rightarrow> (Inr (VList vs), s1))"
| "eval L (Dict its) s =
     (case eval_items L its s of
        (Inl e, s1) \<Rightarrow> (Inl e, s1)
      | (Inr kvs, s1) \<Rightarrow> (Inr (VDict (build_dict kvs)), s1))"
| "eval L (Geoai f as) s =
     (case env s ''geoai'' of
        None \<Rightarrow> (Inl NameError, s)
      | Some m \<Rightarrow>
          if m \<noteq> VModule ''geoai'' then (Inl AttributeError, s)
          else case eval_args L as s of
                 (Inl e, s1) \<Rightarrow> (Inl e, s1)
               | (Inr a, s1) \<Rightarrow>
                   (case check_args a of
                      Inl e \<Rightarrow> (Inl e, s1)
                    | Inr (ps, ks) \<Rightarrow> call_geoai L f ps ks s1))"
| "eval L (Call f e) s =
     (case resolve s f of
        Inl e \<Rightarrow> (Inl e, s)
      | Inr g \<Rightarrow>
          (case eval L e s of
             (Inl e, s1) \<Rightarrow> (Inl e, s1)
           | (Inr v, s1) \<Rightarrow> call_function L g v s1))"
| "eval L (OsPathExists e) s =
     (case env s ''os'' of
        None \<Rightarrow> (Inl NameError, s)
      | Some m \<Rightarrow>
          if m \<noteq> VModule ''os'' then (Inl AttributeError, s)
          else case eval L e s of
                 (Inl e, s1) \<Rightarrow> (Inl e, s1)
               | (Inr v, s1) \<Rightarrow> (path_exists (files (world s1)) v, s1))"
| "eval L (Method e m) s =
     (case eval L e s of
        (Inl e, s1) \<Rightarrow> (Inl e, s1)
      | (Inr v, s1) \<Rightarrow> call_method L v m s1)"
| "eval L (Device e) s =
     (case eval L e s of
        (Inl e, s1) \<Rightarrow> (Inl e, s1)
      | (Inr v, s1) \<Rightarrow> (get_device L v, s1))"
| "eval L (Div a t) s =
     (case eval L a s of
        (Inl e, s1) \<Rightarrow> (Inl e, s1)
      | (Inr v, s1) \<Rightarrow> binary L ''__truediv__'' (\<lambda>v. op_div v t) v (VStr t) s1)"
| "eval L (Gt a n) s =
     (case eval L a s of
        (Inl e, s1) \<Rightarrow> (Inl e, s1)
      | (Inr v, s1) \<Rightarrow> binary L ''__gt__'' (\<lambda>v. op_gt v n) v (VInt n) s1)"
| "eval L (Subscript a b) s =
     (case eval L a s of
        (Inl e, s1) \<Rightarrow> (Inl e, s1)
      | (Inr v, s1) \<Rightarrow>
          (case eval L b s1 of
             (Inl e, s2) \<Rightarrow> (Inl e, s2)
           | (Inr w, s2) \<Rightarrow> binary L ''__getitem__'' (\<lambda>v. op_subscript v w) v w s2))"
| "eval L (SumOver b x it) s =
     (case env s ''sum'' of
        Some f \<Rightarrow> (Inl TypeError, s)
      | None \<Rightarrow>
          (case eval L it s of
             (Inl e, s1) \<Rightarrow> (Inl e, s1)
           | (Inr v, s1) \<Rightarrow>
               (case iterate L v s1 of
                  (Inl e, s2) \<Rightarrow> (Inl e, s2)
                | (Inr vs, s2) \<Rightarrow>
                    (case eval_sum L b x vs (VInt 0) s2 of
                       (r, s3) \<Rightarrow> (r, s3\<lparr>env := (env s3)(x := env s2 x)\<rparr>)))))"
| "eval_list L [] s = (Inr [], s)"
| "eval_list L (e # es) s =
     (case eval L e s of
        (Inl e, s1) \<Rightarrow> (Inl e, s1)
      | (Inr v, s1) \<Rightarrow>
          (case eval_list L es s1 of
             (Inl e, s2) \<Rightarrow> (Inl e, s2)
           | (Inr vs, s2) \<Rightarrow> (Inr (v # vs), s2)))"
| "eval_arg L (Pos e) s =
     (case eval L e s of
        (Inl e, s1) \<Rightarrow> (Inl e, s1)
      | (Inr v, s1) \<Rightarrow> (Inr ([v], []), s1))"
| "eval_arg L (Kw k e) s =
     (case eval L e s of
        (Inl e, s1) \<Rightarrow> (Inl e, s1)
      | (Inr v, s1) \<Rightarrow> (Inr ([], [(k, v)]), s1))"
| "eval_arg L (StarStar e) s =
     (case eval L e s of
        (Inl e, s1) \<Rightarrow> (Inl e, s1)
      | (Inr v, s1) \<Rightarrow>
          (case keywords_of v of Inl e \<Rightarrow> (Inl e, s1) | Inr kvs \<Rightarrow> (Inr ([], kvs), s1)))"
| "eval_args L [] s = (Inr ([], []), s)"
| "eval_args L (a # as) s =
     (case eval_arg L a s of
        (Inl e, s1) \<Rightarrow> (Inl e, s1)
      | (Inr (ps, ks), s1) \<Rightarrow>
          (case eval_args L as s1 of
             (Inl e, s2) \<Rightarrow> (Inl e, s2)
           | (Inr (ps', ks'), s2) \<Rightarrow> (Inr (ps @ ps', ks @ ks'), s2)))"
| "eval_item L (Item k e) s =
     (case eval L e s of
        (Inl e, s1) \<Rightarrow> (Inl e, s1)
      | (Inr v, s1) \<Rightarrow> (Inr (k, v), s1))"
| "eval_items L [] s = (Inr [], s)"
| "eval_items L (i # is) s =
     (case eval_item L i s of
        (Inl e, s1) \<Rightarrow> (Inl e, s1)
      | (Inr (k, v), s1) \<Rightarrow>
          (case eval_items L is s1 of
             (Inl e, s2) \<Rightarrow> (Inl e, s2)
           | (Inr kvs, s2) \<Rightarrow> (Inr ((k, v) # kvs), s2)))"
| "eval_sum L b x [] acc s = (Inr acc, s)"
| "eval_sum L b x (v # vs) acc s =
     (case eval L b (s\<lparr>env := (env s)(x \<mapsto> v)\<rparr>) of
        (Inl e, s1) \<Rightarrow> (Inl e, s1)
      | (Inr w, s1) \<Rightarrow>
          (case add L acc w s1 of
             (Inl e, s2) \<Rightarrow> (Inl e, s2)
           | (Inr acc', s2) \<Rightarrow> eval_sum L b x vs acc' s2))"
  by pat_completeness auto
termination
  by (relation "inv_image (less_than <*lex*> less_than) (\<lambda>x. case x of
        Inl (Inl (L, e, s)) \<Rightarrow> (2 * size e, 0)
      | Inl (Inr (Inl (L, es, s))) \<Rightarrow> (2 * size_list size es, 0)
      | Inl (Inr (Inr (L, a, s))) \<Rightarrow> (2 * size a, 0)
      | Inr (Inl (Inl (L, as, s))) \<Rightarrow> (2 * size_list size as, 0)
      | Inr (Inl (Inr (L, i, s))) \<Rightarrow> (2 * size i, 0)
      | Inr (Inr (Inl (L, is, s))) \<Rightarrow> (2 * size_list size is, 0)
      | Inr (Inr (Inr (L, b, x, vs, acc, s))) \<Rightarrow> (2 * size b + 1, length vs))")
     auto

subsection \<open>Execution of statements\<close>

text \<open>Binding a target: a name, a tuple of names (the value is run over and must give as
  many items), or the entry \<^verbatim>\<open>os.environ[k]\<close>, which takes a string.\<close>

definition assign :: "'x lib \<Rightarrow> target \<Rightarrow> val \<Rightarrow> 'x state \<Rightarrow> pyerr option \<times> 'x state" where
  "assign L t v s =
     (case t of
        Name x \<Rightarrow> (None, s\<lparr>env := (env s)(x \<mapsto> v)\<rparr>)
      | Names xs \<Rightarrow>
          (case iterate L v s of
             (Inl e, s1) \<Rightarrow> (Some e, s1)
           | (Inr vs, s1) \<Rightarrow>
               if length vs \<noteq> length xs then (Some ValueError, s1)
               else (None, s1\<lparr>env := fold (\<lambda>xv e. e(fst xv \<mapsto> snd xv)) (zip xs vs) (env s1)\<rparr>))
      | Environ k \<Rightarrow>
          (case env s ''os'' of
             None \<Rightarrow> (Some NameError, s)
           | Some m \<Rightarrow>
               if m \<noteq> VModule ''os'' then (Some AttributeError, s)
               else case v of
                      VStr t \<Rightarrow>
                        (None, s\<lparr>world := (world s)\<lparr>environ := (environ (world s))(k \<mapsto> t)\<rparr>\<rparr>)
                    | _ \<Rightarrow> (Some TypeError, s)))"

text \<open>\<^verbatim>\<open>import m\<close>: \<^verbatim>\<open>os\<close> is always there; importing another module runs it, which is
  the library's doing.\<close>

definition import_module :: "'x lib \<Rightarrow> string \<Rightarrow> 'x state \<Rightarrow> pyerr option \<times> 'x state" where
  "import_module L m s =
     (if m = ''os'' then (None, s\<lparr>env := (env s)(m \<mapsto> VModule m)\<rparr>)
      else case on_import L m (world s) of
             (Some e, w) \<Rightarrow> (Some e, s\<lparr>world := w\<rparr>)
           | (None, w) \<Rightarrow> (None, s\<lparr>world := w, env := (env s)(m \<mapsto> VModule m)\<rparr>))"

text \<open>A statement ends normally (\<open>None\<close>) or with an exception.\<close>

function (sequential) exec :: "'x lib \<Rightarrow> stmt \<Rightarrow> 'x state \<Rightarrow> pyerr option \<times> 'x state"
  and exec_block :: "'x lib \<Rightarrow> stmt list \<Rightarrow> 'x state \<Rightarrow> pyerr option \<times> 'x state"
  and exec_for :: "'x lib \<Rightarrow> target \<Rightarrow> stmt list \<Rightarrow> val list \<Rightarrow> 'x state \<Rightarrow> pyerr option \<times> 'x state"
where
  "exec L (Import m) s = import_module L m s"
| "exec L ImportPath s = (None, s\<lparr>env := (env s)(''Path'' \<mapsto> VFunc ''pathlib.Path'')\<rparr>)"
| "exec L (Assign t e) s =
     (case eval L e s of
        (Inl err, s1) \<Rightarrow> (Some err, s1)
      | (Inr v, s1) \<Rightarrow> assign L t v s1)"
| "exec L (Expr e) s =
     (case eval L e s of
        (Inl err, s1) \<Rightarrow> (Some err, s1)
      | (Inr v, s1) \<Rightarrow> (None, s1))"
| "exec L (If c a b) s =
     (case eval L c s of
        (Inl err, s1) \<Rightarrow> (Some err, s1)
      | (Inr v, s1) \<Rightarrow>
          (case test L v s1 of
             (Inl err, s2) \<Rightarrow> (Some err, s2)
           | (Inr t, s2) \<Rightarrow> (if t then exec_block L a s2 else exec_block L b s2)))"
| "exec L (For t e body) s =
     (case eval L e s of
        (Inl err, s1) \<Rightarrow> (Some err, s1)
      | (Inr v, s1) \<Rightarrow>
          (case iterate L v s1 of
             (Inl err, s2) \<Rightarrow> (Some err, s2)
           | (Inr vs, s2) \<Rightarrow> exec_for L t body vs s2))"
| "exec L (Try a h) s =
     (case exec_block L a s of
        (None, s1) \<Rightarrow> (None, s1)
      | (Some err, s1) \<Rightarrow> exec_block L h s1)"
| "exec_block L [] s = (None, s)"
| "exec_block L (c # cs) s =
     (case exec L c s of
        (Some err, s1) \<Rightarrow> (Some err, s1)
      | (None, s1) \<Rightarrow> exec_block L cs s1)"
| "exec_for L t body [] s = (None, s)"
| "exec_for L t body (v # vs) s =
     (case assign L t v s of
        (Some err, s1) \<Rightarrow> (Some err, s1)
      | (None, s1) \<Rightarrow>
          (case exec_block L body s1 of
             (Some err, s2) \<Rightarrow> (Some err, s2)
           | (None, s2) \<Rightarrow> exec_for L t body vs s2))"
  by pat_completeness auto
termination
  by (relation "inv_image (less_than <*lex*> less_than) (\<lambda>x. case x of
        Inl (L, c, s) \<Rightarrow> (2 * size c, 0)
      | Inr (Inl (L, cs, s)) \<Rightarrow> (2 * size_list size cs, 0)
      | Inr (Inr (L, t, body, vs, s)) \<Rightarrow> (2 * size_list size body + 1, length vs))")
     auto

text \<open>A notebook is its code cells in order; running it top to bottom runs their
  statements one after the other, from a state in which no name is bound.\<close>

type_synonym notebook = "stmt list list"

definition initial :: "'x world \<Rightarrow> 'x state" where
  "initial w = \<lparr>env = (\<lambda>x. None), world = w, stdout = [], trace = []\<rparr>"

definition run :: "'x lib \<Rightarrow> notebook \<Rightarrow> 'x world \<Rightarrow> pyerr option \<times> 'x state" where
  "run L nb w = exec_block L (concat nb) (initial w)"

subsection \<open>The instance segmentation notebook\<close>

text \<open>The addresses of the sample data, as the notebooks spell them.\<close>

definition naip_rgb_train_url :: string where
  "naip_rgb_train_url =
     ''https://huggingface.co/datasets/giswqs/geospatial/resolve/main/naip_rgb_train.tif''"

definition naip_train_buildings_url :: string where
  "naip_train_buildings_url =
     ''https://huggingface.co/datasets/giswqs/geospatial/resolve/main/naip_train_buildings.geojson''"

definition naip_test_url :: string where
  "naip_test_url =
     ''https://huggingface.co/datasets/giswqs/geospatial/resolve/main/naip_test.tif''"

definition las_vegas_train_naip_url :: string where
  "las_vegas_train_naip_url =
     ''https://huggingface.co/datasets/giswqs/geospatial/resolve/main/las_vegas_train_naip.tif''"

definition las_vegas_train_hag_url :: string where
  "las_vegas_train_hag_url =
     ''https://huggingface.co/datasets/giswqs/geospatial/resolve/main/las_vegas_train_hag.tif''"

definition las_vegas_buildings_train_url :: string where
  "las_vegas_buildings_train_url =
     ''https://huggingface.co/datasets/giswqs/geospatial/resolve/main/las_vegas_buildings_train.geojson''"

definition las_vegas_test_naip_url :: string where
  "las_vegas_test_naip_url =
     ''https://huggingface.co/datasets/giswqs/geospatial/resolve/main/las_vegas_test_naip.tif''"

definition las_vegas_test_hag_url :: string where
  "las_vegas_test_hag_url =
     ''https://huggingface.co/datasets/giswqs/geospatial/resolve/main/las_vegas_test_hag.tif''"

abbreviation (input) Print :: "expr \<Rightarrow> stmt" where
  "Print e \<equiv> Expr (Call BPrint e)"

abbreviation (input) Field :: "string \<Rightarrow> expr" where
  "Field x \<equiv> Fmt (Var x) None"

text \<open>The cell \<^verbatim>\<open># %pip install geoai-py\<close> holds a comment only.\<close>

definition inst_install :: "stmt list" where
  "inst_install = []"

definition inst_imports :: "stmt list" where
  "inst_imports = [Import ''geoai'', Import ''os'', ImportPath]"

definition inst_setup :: "stmt list" where
  "inst_setup =
     [Assign (Name ''device'') (Geoai ''get_device'' []),
      Print (FString [Str ''Using device: '', Field ''device'']),
      Assign (Name ''out_folder'') (Str ''instance_segmentation_buildings''),
      Assign (Name ''models_dir'') (Div (Call BPath (Var ''out_folder'')) ''models''),
      Assign (Name ''output_dir'') (Div (Call BPath (Var ''out_folder'')) ''output''),
      Expr (Method (Var ''models_dir'') MkdirAll),
      Expr (Method (Var ''output_dir'') MkdirAll),
      Print (FString [Str ''Working directory: '', Field ''out_folder'']),
      Print (FString [Str ''Models will be saved to: '', Field ''models_dir'']),
      Print (FString [Str ''Output will be saved to: '', Field ''output_dir''])]"

definition inst_urls :: "stmt list" where
  "inst_urls =
     [Assign (Name ''train_raster_url'')
        (Str naip_rgb_train_url),
      Assign (Name ''train_vector_url'')
        (Str naip_train_buildings_url),
      Assign (Name ''test_raster_url'')
        (Str naip_test_url)]"

definition inst_download :: "stmt list" where
  "inst_download =
     [Assign (Name ''train_raster_path'') (Geoai ''download_file'' [Pos (Var ''train_raster_url'')]),
      Assign (Name ''train_vector_path'') (Geoai ''download_file'' [Pos (Var ''train_vector_url'')]),
      Assign (Name ''test_raster_path'') (Geoai ''download_file'' [Pos (Var ''test_raster_url'')]),
      Print (FString [Str ''Downloaded training raster: '', Field ''train_raster_path'']),
      Print (FString [Str ''Downloaded training vector: '', Field ''train_vector_path'']),
      Print (FString [Str ''Downloaded test raster: '', Field ''test_raster_path''])]"

definition inst_raster_info :: "stmt list" where
  "inst_raster_info = [Expr (Geoai ''get_raster_info'' [Pos (Var ''train_raster_path'')])]"

definition inst_view_vector :: "stmt list" where
  "inst_view_vector =
     [Expr (Geoai ''view_vector_interactive''
        [Pos (Var ''train_vector_path''), Kw ''tiles'' (Var ''train_raster_url'')])]"

definition inst_view_raster :: "stmt list" where
  "inst_view_raster = [Expr (Geoai ''view_raster'' [Pos (Var ''test_raster_url'')])]"

definition inst_tiles :: "stmt list" where
  "inst_tiles =
     [Assign (Name ''tiles'')
        (Geoai ''export_geotiff_tiles''
           [Kw ''in_raster'' (Var ''train_raster_path''),
            Kw ''out_folder'' (Var ''out_folder''),
            Kw ''in_class_data'' (Var ''train_vector_path''),
            Kw ''tile_size'' (Num 512),
            Kw ''stride'' (Num 256),
            Kw ''buffer_radius'' (Num 0)]),
      Print (FString [Str ''Created '', Fmt (Call BLen (Var ''tiles'')) None,
                      Str '' training tiles'']),
      Print (FString [Str ''Images saved to: '', Field ''out_folder'', Str ''/images'']),
      Print (FString [Str ''Labels saved to: '', Field ''out_folder'', Str ''/labels''])]"

definition inst_model :: "stmt list" where
  "inst_model =
     [Assign (Name ''model'')
        (Geoai ''get_instance_segmentation_model''
           [Kw ''num_classes'' (Num 2), Kw ''num_channels'' (Num 3), Kw ''pretrained'' (Bool True)]),
      Print (FString
        [Str ''Model created with '',
         Fmt (SumOver (Method (Var ''p'') Numel) ''p''
                        (Method (Var ''model'') Parameters)) None,
         Str '' parameters'']),
      Print (FString
        [Str ''Model device: '',
         Fmt (Device (Call BNext (Method (Var ''model'') Parameters))) None]),
      Print (FString [Str ''Model type: '', Fmt (Call BType (Var ''model'')) None])]"

definition inst_training_config :: "stmt list" where
  "inst_training_config =
     [Assign (Name ''training_config'')
        (Dict
           [Item ''images_dir'' (FString [Field ''out_folder'', Str ''/images'']),
            Item ''labels_dir'' (FString [Field ''out_folder'', Str ''/labels'']),
            Item ''output_dir'' (Call BStr (Var ''models_dir'')),
            Item ''num_classes'' (Num 2),
            Item ''num_channels'' (Num 3),
            Item ''batch_size'' (Num 2),
            Item ''num_epochs'' (Num 20),
            Item ''learning_rate'' (Dec 5 3),
            Item ''val_split'' (Dec 2 1),
            Item ''visualize'' (Bool True),
            Item ''device'' (Var ''device''),
            Item ''verbose'' (Bool True)]),
      Print (Str ''Training configuration:''),
      For (Names [''key'', ''value'']) (Method (Var ''training_config'') Items)
        [Print (FString [Str ''  '', Field ''key'', Str '': '', Field ''value''])]]"

definition inst_train :: "stmt list" where
  "inst_train =
     [Print (Str ''Starting training...''),
      Expr (Geoai ''train_instance_segmentation_model'' [StarStar (Var ''training_config'')]),
      Print (Str ''Training completed!'')]"

definition inst_plot :: "stmt list" where
  "inst_plot =
     [Expr (Geoai ''plot_performance_metrics''
        [Kw ''history_path''
           (Call BStr (Div (Var ''models_dir'') ''training_history.pth'')),
         Kw ''figsize'' (Tuple [Num 15, Num 5]),
         Kw ''verbose'' (Bool True)])]"

definition inst_check :: "stmt list" where
  "inst_check =
     [Assign (Name ''model_path'')
        (Call BStr (Div (Var ''models_dir'') ''best_model.pth'')),
      Assign (Name ''output_path'')
        (Call BStr (Div (Var ''output_dir'') ''instance_segmentation_result.tif'')),
      If (OsPathExists (Var ''model_path''))
        [Print (FString [Str ''Model found at: '', Field ''model_path''])]
        [Print (FString [Str ''Model not found at: '', Field ''model_path'']),
         Print (Str ''Please ensure training completed successfully'')]]"

definition inst_inference :: "stmt list" where
  "inst_inference =
     [Assign (Name ''inference_config'')
        (Dict
           [Item ''input_path'' (Var ''test_raster_path''),
            Item ''output_path'' (Var ''output_path''),
            Item ''model_path'' (Var ''model_path''),
            Item ''window_size'' (Num 512),
            Item ''overlap'' (Num 128),
            Item ''confidence_threshold'' (Dec 5 1),
            Item ''batch_size'' (Num 2),
            Item ''num_channels'' (Num 3),
            Item ''num_classes'' (Num 2),
            Item ''device'' (Var ''device'')]),
      Print (Str ''Running inference with sliding window processing...''),
      Assign (Names [''result_path'', ''inference_time''])
        (Geoai ''instance_segmentation'' [StarStar (Var ''inference_config'')]),
      Print (FString [Str ''Inference completed in '', Fmt (Var ''inference_time'') (Some 2),
                      Str '' seconds!''])]"

definition inst_view_result :: "stmt list" where
  "inst_view_result =
     [Expr (Geoai ''view_raster''
        [Pos (Var ''output_path''), Kw ''nodata'' (Num 0), Kw ''colormap'' (Str ''tab20''),
         Kw ''opacity'' (Dec 7 1), Kw ''basemap'' (Var ''test_raster_url'')])]"

definition inst_vectorize :: "stmt list" where
  "inst_vectorize =
     [Assign (Name ''output_vector_path'') (Str ''building_predictions.geojson''),
      Assign (Name ''gdf'')
        (Geoai ''orthogonalize''
           [Pos (Var ''output_path''), Pos (Var ''output_vector_path''), Kw ''epsilon'' (Num 2)])]"

definition inst_props :: "stmt list" where
  "inst_props =
     [Assign (Name ''gdf_props'')
        (Geoai ''add_geometric_properties''
           [Pos (Var ''gdf''), Kw ''area_unit'' (Str ''m2''), Kw ''length_unit'' (Str ''m'')])]"

definition inst_view_props :: "stmt list" where
  "inst_view_props =
     [Expr (Geoai ''view_vector_interactive''
        [Pos (Var ''gdf_props''), Kw ''column'' (Str ''area_m2''),
         Kw ''tiles'' (Var ''test_raster_url'')])]"

text \<open>The superscript two of the printed text is written as its two bytes in UTF-8.\<close>

definition inst_filter :: "stmt list" where
  "inst_filter =
     [Assign (Name ''gdf_filtered'')
        (Subscript (Var ''gdf_props'') (Gt (Subscript (Var ''gdf_props'') (Str ''area_m2'')) 50)),
      Print (FString
        [Str (''Buildings after filtering (area > 50 m'' @ [CHR 0xC2, CHR 0xB2] @ ''): ''),
         Fmt (Call BLen (Var ''gdf_filtered'')) None]),
      Expr (Geoai ''view_vector_interactive''
        [Pos (Var ''gdf_filtered''), Kw ''column'' (Str ''area_m2''),
         Kw ''tiles'' (Var ''test_raster_url'')])]"

definition inst_split_map :: "stmt list" where
  "inst_split_map =
     [Expr (Geoai ''create_split_map''
        [Kw ''left_layer'' (Var ''gdf_filtered''),
         Kw ''right_layer'' (Var ''test_raster_url''),
         Kw ''left_args''
           (Dict [Item ''style'' (Dict [Item ''color'' (Str ''red''), Item ''fillOpacity'' (Dec 3 1)])]),
         Kw ''basemap'' (Var ''test_raster_url'')])]"

definition instance_segmentation_nb :: notebook where
  "instance_segmentation_nb =
     [inst_install, inst_imports, inst_setup, inst_urls, inst_download, inst_raster_info,
      inst_view_vector, inst_view_raster, inst_tiles, inst_model, inst_training_config,
      inst_train, inst_plot, inst_check, inst_inference, inst_view_result, inst_vectorize,
      inst_props, inst_view_props, inst_filter, inst_split_map]"

subsection \<open>The building detection notebook (aerial imagery and LiDAR)\<close>

definition lidar_install :: "stmt list" where
  "lidar_install = []"

definition lidar_imports :: "stmt list" where
  "lidar_imports = [Import ''os'', Import ''geoai'']"

definition lidar_urls :: "stmt list" where
  "lidar_urls =
     [Assign (Name ''train_aerial_url'')
        (Str las_vegas_train_naip_url),
      Assign (Name ''train_LiDAR_url'')
        (Str las_vegas_train_hag_url),
      Assign (Name ''train_building_url'')
        (Str las_vegas_buildings_train_url),
      Assign (Name ''test_aerial_url'')
        (Str las_vegas_test_naip_url),
      Assign (Name ''test_LiDAR_url'')
        (Str las_vegas_test_hag_url)]"

definition lidar_download :: "stmt list" where
  "lidar_download =
     [Assign (Name ''train_aerial_path'') (Geoai ''download_file'' [Pos (Var ''train_aerial_url'')]),
      Assign (Name ''train_LiDAR_path'') (Geoai ''download_file'' [Pos (Var ''train_LiDAR_url'')]),
      Assign (Name ''train_building_path'') (Geoai ''download_file'' [Pos (Var ''train_building_url'')]),
      Assign (Name ''test_aerial_path'') (Geoai ''download_file'' [Pos (Var ''test_aerial_url'')]),
      Assign (Name ''test_LiDAR_path'') (Geoai ''download_file'' [Pos (Var ''test_LiDAR_url'')])]"

definition lidar_endpoint :: "stmt list" where
  "lidar_endpoint = [Assign (Environ ''TITILER_ENDPOINT'') (Str ''https://titiler.xyz'')]"

definition lidar_view_aerial :: "stmt list" where
  "lidar_view_aerial =
     [Expr (Geoai ''view_vector_interactive''
        [Pos (Var ''train_building_path''), Kw ''tiles'' (Var ''train_aerial_url'')])]"

definition lidar_view_hag :: "stmt list" where
  "lidar_view_hag =
     [Expr (Geoai ''view_vector_interactive''
        [Pos (Var ''train_building_path''), Kw ''tiles'' (Var ''train_LiDAR_url'')])]"

definition lidar_stack_train :: "stmt list" where
  "lidar_stack_train =
     [Assign (Name ''train_raster_path'') (Str ''las_vegas_train_naip_hag.tif''),
      Expr (Geoai ''stack_bands''
        [Kw ''input_files'' (ListE [Var ''train_aerial_path'', Var ''train_LiDAR_path'']),
         Kw ''output_file'' (Var ''train_raster_path''),
         Kw ''resolution'' NoneLit,
         Kw ''overwrite'' (Bool True),
         Kw ''dtype'' (Str ''Byte'')])]"

definition lidar_stack_test :: "stmt list" where
  "lidar_stack_test =
     [Assign (Name ''test_raster_path'') (Str ''las_vegas_test_naip_hag.tif''),
      Expr (Geoai ''stack_bands''
        [Kw ''input_files'' (ListE [Var ''test_aerial_path'', Var ''test_LiDAR_path'']),
         Kw ''output_file'' (Var ''test_raster_path''),
         Kw ''resolution'' NoneLit,
         Kw ''overwrite'' (Bool True),
         Kw ''dtype'' (Str ''Byte'')])]"

definition lidar_tiles :: "stmt list" where
  "lidar_tiles =
     [Assign (Name ''out_folder'') (Str ''buildings''),
      Assign (Name ''tiles'')
        (Geoai ''export_geotiff_tiles''
           [Kw ''in_raster'' (Var ''train_raster_path''),
            Kw ''out_folder'' (Var ''out_folder''),
            Kw ''in_class_data'' (Var ''train_building_path''),
            Kw ''tile_size'' (Num 512),
            Kw ''stride'' (Num 256),
            Kw ''buffer_radius'' (Num 0)])]"

definition lidar_train :: "stmt list" where
  "lidar_train =
     [Expr (Geoai ''train_segmentation_model''
        [Kw ''images_dir'' (FString [Field ''out_folder'', Str ''/images'']),
         Kw ''labels_dir'' (FString [Field ''out_folder'', Str ''/labels'']),
         Kw ''output_dir'' (FString [Field ''out_folder'', Str ''/unet_models'']),
         Kw ''architecture'' (Str ''unet''),
         Kw ''encoder_name'' (Str ''resnet34''),
         Kw ''encoder_weights'' (Str ''imagenet''),
         Kw ''num_channels'' (Num 5),
         Kw ''num_classes'' (Num 2),
         Kw ''batch_size'' (Num 8),
         Kw ''num_epochs'' (Num 50),
         Kw ''learning_rate'' (Dec 1 3),
         Kw ''val_split'' (Dec 2 1),
         Kw ''verbose'' (Bool True)])]"

definition lidar_plot :: "stmt list" where
  "lidar_plot =
     [Expr (Geoai ''plot_performance_metrics''
        [Kw ''history_path'' (FString [Field ''out_folder'', Str ''/unet_models/training_history.pth'']),
         Kw ''figsize'' (Tuple [Num 15, Num 5]),
         Kw ''verbose'' (Bool True)])]"

definition lidar_paths :: "stmt list" where
  "lidar_paths =
     [Assign (Name ''masks_path'') (Str ''building_masks.tif''),
      Assign (Name ''model_path'') (FString [Field ''out_folder'', Str ''/unet_models/best_model.pth''])]"

definition lidar_inference :: "stmt list" where
  "lidar_inference =
     [Expr (Geoai ''semantic_segmentation''
        [Kw ''input_path'' (Var ''test_raster_path''),
         Kw ''output_path'' (Var ''masks_path''),
         Kw ''model_path'' (Var ''model_path''),
         Kw ''architecture'' (Str ''unet''),
         Kw ''encoder_name'' (Str ''resnet34''),
         Kw ''num_channels'' (Num 5),
         Kw ''num_classes'' (Num 2),
         Kw ''window_size'' (Num 512),
         Kw ''overlap'' (Num 256),
         Kw ''batch_size'' (Num 8)])]"

definition lidar_vectorize :: "stmt list" where
  "lidar_vectorize =
     [Assign (Name ''output_vector_path'') (Str ''building_masks.geojson''),
      Assign (Name ''gdf'')
        (Geoai ''orthogonalize''
           [Pos (Var ''masks_path''), Pos (Var ''output_vector_path''), Kw ''epsilon'' (Num 2)])]"

definition lidar_props :: "stmt list" where
  "lidar_props =
     [Assign (Name ''gdf_props'')
        (Geoai ''add_geometric_properties''
           [Pos (Var ''gdf''), Kw ''area_unit'' (Str ''m2''), Kw ''length_unit'' (Str ''m'')]),
      Print (FString [Str ''Number of buildings: '', Fmt (Call BLen (Var ''gdf_props'')) None])]"

definition lidar_view_masks :: "stmt list" where
  "lidar_view_masks =
     [Expr (Geoai ''view_raster''
        [Pos (Var ''masks_path''), Kw ''nodata'' (Num 0), Kw ''basemap'' (Var ''test_aerial_url''),
         Kw ''backend'' (Str ''ipyleaflet'')])]"

definition lidar_view_props :: "stmt list" where
  "lidar_view_props =
     [Expr (Geoai ''view_vector_interactive''
        [Pos (Var ''gdf_props''), Kw ''column'' (Str ''area_m2''),
         Kw ''tiles'' (Var ''test_aerial_url'')])]"

definition lidar_filter :: "stmt list" where
  "lidar_filter =
     [Assign (Name ''gdf_filtered'')
        (Subscript (Var ''gdf_props'') (Gt (Subscript (Var ''gdf_props'') (Str ''area_m2'')) 50)),
      Print (FString [Str ''Number of buildings: '', Fmt (Call BLen (Var ''gdf_filtered'')) None])]"

definition lidar_view_filtered :: "stmt list" where
  "lidar_view_filtered =
     [Expr (Geoai ''view_vector_interactive''
        [Pos (Var ''gdf_filtered''), Kw ''column'' (Str ''area_m2''),
         Kw ''tiles'' (Var ''test_aerial_url'')])]"

definition lidar_split_map :: "stmt list" where
  "lidar_split_map =
     [Expr (Geoai ''create_split_map''
        [Kw ''left_layer'' (Var ''gdf_filtered''),
         Kw ''right_layer'' (Var ''test_aerial_url''),
         Kw ''left_args''
           (Dict [Item ''style'' (Dict [Item ''color'' (Str ''red''), Item ''fillOpacity'' (Dec 2 1)])]),
         Kw ''basemap'' (Var ''test_aerial_url'')])]"

definition building_detection_lidar_nb :: notebook where
  "building_detection_lidar_nb =
     [lidar_install, lidar_imports, lidar_urls, lidar_download, lidar_endpoint, lidar_view_aerial,
      lidar_view_hag, lidar_stack_train, lidar_stack_test, lidar_tiles, lidar_train, lidar_plot,
      lidar_paths, lidar_inference, lidar_vectorize, lidar_props, lidar_view_masks,
      lidar_view_props, lidar_filter, lidar_view_filtered, lidar_split_map]"


section \<open>What the notebooks can do, read off their text\<close>

subsection \<open>The library functions a program calls, and the names it binds\<close>

text \<open>The names of the \<^verbatim>\<open>geoai\<close> functions called in an expression, in the order in which
  evaluation reaches them: the arguments of a call come before the call itself.\<close>

fun ops_expr :: "expr \<Rightarrow> string list"
  and ops_exprs :: "expr list \<Rightarrow> string list"
  and ops_arg :: "arg \<Rightarrow> string list"
  and ops_args :: "arg list \<Rightarrow> string list"
  and ops_item :: "item \<Rightarrow> string list"
  and ops_items :: "item list \<Rightarrow> string list"
where
  "ops_expr (Str t) = []"
| "ops_expr (Num i) = []"
| "ops_expr (Dec m e) = []"
| "ops_expr (Bool b) = []"
| "ops_expr NoneLit = []"
| "ops_expr (Var x) = []"
| "ops_expr (FString es) = ops_exprs es"
| "ops_expr (Fmt e spec) = ops_expr e"
| "ops_expr (Tuple es) = ops_exprs es"
| "ops_expr (ListE es) = ops_exprs es"
| "ops_expr (Dict its) = ops_items its"
| "ops_expr (Geoai f as) = ops_args as @ [f]"
| "ops_expr (Call f e) = ops_expr e"
| "ops_expr (OsPathExists e) = ops_expr e"
| "ops_expr (Method e m) = ops_expr e"
| "ops_expr (Device e) = ops_expr e"
| "ops_expr (Div a t) = ops_expr a"
| "ops_expr (Gt a n) = ops_expr a"
| "ops_expr (Subscript a b) = ops_expr a @ ops_expr b"
| "ops_expr (SumOver b x it) = ops_expr it @ ops_expr b"
| "ops_exprs [] = []"
| "ops_exprs (e # es) = ops_expr e @ ops_exprs es"
| "ops_arg (Pos e) = ops_expr e"
| "ops_arg (Kw k e) = ops_expr e"
| "ops_arg (StarStar e) = ops_expr e"
| "ops_args [] = []"
| "ops_args (a # as) = ops_arg a @ ops_args as"
| "ops_item (Item k e) = ops_expr e"
| "ops_items [] = []"
| "ops_items (i # is) = ops_item i @ ops_items is"

fun ops_stmt :: "stmt \<Rightarrow> string list"
  and ops_block :: "stmt list \<Rightarrow> string list"
where
  "ops_stmt (Import m) = []"
| "ops_stmt ImportPath = []"
| "ops_stmt (Assign t e) = ops_expr e"
| "ops_stmt (Expr e) = ops_expr e"
| "ops_stmt (If c a b) = ops_expr c @ ops_block a @ ops_block b"
| "ops_stmt (For t e body) = ops_expr e @ ops_block body"
| "ops_stmt (Try a h) = ops_block a @ ops_block h"
| "ops_block [] = []"
| "ops_block (c # cs) = ops_stmt c @ ops_block cs"

text \<open>The names a statement can bind. The variable of a generator expression is not
  among them: it is local to the expression.\<close>

fun assigned_target :: "target \<Rightarrow> string list" where
  "assigned_target (Name x) = [x]"
| "assigned_target (Names xs) = xs"
| "assigned_target (Environ k) = []"

fun assigned :: "stmt \<Rightarrow> string list"
  and assigned_block :: "stmt list \<Rightarrow> string list"
where
  "assigned (Import m) = [m]"
| "assigned ImportPath = [''Path'']"
| "assigned (Assign t e) = assigned_target t"
| "assigned (Expr e) = []"
| "assigned (If c a b) = assigned_block a @ assigned_block b"
| "assigned (For t e body) = assigned_target t @ assigned_block body"
| "assigned (Try a h) = assigned_block a @ assigned_block h"
| "assigned_block [] = []"
| "assigned_block (c # cs) = assigned c @ assigned_block cs"

text \<open>A program is flat when no library call stands where control flow could skip or
  repeat it: not in a branch of a conditional, not in the body of a loop or of a generator
  expression, and there is no exception handler at all.\<close>

fun flat_expr :: "expr \<Rightarrow> bool"
  and flat_exprs :: "expr list \<Rightarrow> bool"
  and flat_arg :: "arg \<Rightarrow> bool"
  and flat_args :: "arg list \<Rightarrow> bool"
  and flat_item :: "item \<Rightarrow> bool"
  and flat_items :: "item list \<Rightarrow> bool"
where
  "flat_expr (Str t) = True"
| "flat_expr (Num i) = True"
| "flat_expr (Dec m e) = True"
| "flat_expr (Bool b) = True"
| "flat_expr NoneLit = True"
| "flat_expr (Var x) = True"
| "flat_expr (FString es) = flat_exprs es"
| "flat_expr (Fmt e spec) = flat_expr e"
| "flat_expr (Tuple es) = flat_exprs es"
| "flat_expr (ListE es) = flat_exprs es"
| "flat_expr (Dict its) = flat_items its"
| "flat_expr (Geoai f as) = flat_args as"
| "flat_expr (Call f e) = flat_expr e"
| "flat_expr (OsPathExists e) = flat_expr e"
| "flat_expr (Method e m) = flat_expr e"
| "flat_expr (Device e) = flat_expr e"
| "flat_expr (Div a t) = flat_expr a"
| "flat_expr (Gt a n) = flat_expr a"
| "flat_expr (Subscript a b) = (flat_expr a \<and> flat_expr b)"
| "flat_expr (SumOver b x it) = (flat_expr it \<and> ops_expr b = [])"
| "flat_exprs [] = True"
| "flat_exprs (e # es) = (flat_expr e \<and> flat_exprs es)"
| "flat_arg (Pos e) = flat_expr e"
| "flat_arg (Kw k e) = flat_expr e"
| "flat_arg (StarStar e) = flat_expr e"
| "flat_args [] = True"
| "flat_args (a # as) = (flat_arg a \<and> flat_args as)"
| "flat_item (Item k e) = flat_expr e"
| "flat_items [] = True"
| "flat_items (i # is) = (flat_item i \<and> flat_items is)"

fun flat_stmt :: "stmt \<Rightarrow> bool" where
  "flat_stmt (Import m) = True"
| "flat_stmt ImportPath = True"
| "flat_stmt (Assign t e) = flat_expr e"
| "flat_stmt (Expr e) = flat_expr e"
| "flat_stmt (If c a b) = (flat_expr c \<and> ops_block a = [] \<and> ops_block b = [])"
| "flat_stmt (For t e body) = (flat_expr e \<and> ops_block body = [])"
| "flat_stmt (Try a h) = False"

subsection \<open>Control flow and arguments\<close>

text \<open>The constructs of a program that decide what runs, in the order in which a run
  reaches them: loops, branches, exception handlers, generator expressions, and selections
  by a comparison (\<^verbatim>\<open>a[b > n]\<close>).\<close>

datatype construct = Loop | Branch | Handler | Generator | Selection

fun control_expr :: "expr \<Rightarrow> construct list"
  and control_exprs :: "expr list \<Rightarrow> construct list"
  and control_arg :: "arg \<Rightarrow> construct list"
  and control_args :: "arg list \<Rightarrow> construct list"
  and control_item :: "item \<Rightarrow> construct list"
  and control_items :: "item list \<Rightarrow> construct list"
where
  "control_expr (Str t) = []"
| "control_expr (Num i) = []"
| "control_expr (Dec m e) = []"
| "control_expr (Bool b) = []"
| "control_expr NoneLit = []"
| "control_expr (Var x) = []"
| "control_expr (FString es) = control_exprs es"
| "control_expr (Fmt e d) = control_expr e"
| "control_expr (Tuple es) = control_exprs es"
| "control_expr (ListE es) = control_exprs es"
| "control_expr (Dict its) = control_items its"
| "control_expr (Geoai f as) = control_args as"
| "control_expr (Call f e) = control_expr e"
| "control_expr (OsPathExists e) = control_expr e"
| "control_expr (Method e m) = control_expr e"
| "control_expr (Device e) = control_expr e"
| "control_expr (Div a t) = control_expr a"
| "control_expr (Gt a n) = control_expr a"
| "control_expr (Subscript a b) =
     control_expr a @ control_expr b @ (case b of Gt c n \<Rightarrow> [Selection] | _ \<Rightarrow> [])"
| "control_expr (SumOver b x it) = control_expr it @ [Generator] @ control_expr b"
| "control_exprs [] = []"
| "control_exprs (e # es) = control_expr e @ control_exprs es"
| "control_arg (Pos e) = control_expr e"
| "control_arg (Kw k e) = control_expr e"
| "control_arg (StarStar e) = control_expr e"
| "control_args [] = []"
| "control_args (a # as) = control_arg a @ control_args as"
| "control_item (Item k e) = control_expr e"
| "control_items [] = []"
| "control_items (i # is) = control_item i @ control_items is"

fun control_stmt :: "stmt \<Rightarrow> construct list"
  and control_block :: "stmt list \<Rightarrow> construct list"
where
  "control_stmt (Import m) = []"
| "control_stmt ImportPath = []"
| "control_stmt (Assign t e) = control_expr e"
| "control_stmt (Expr e) = control_expr e"
| "control_stmt (If c a b) = control_expr c @ [Branch] @ control_block a @ control_block b"
| "control_stmt (For t e body) = control_expr e @ [Loop] @ control_block body"
| "control_stmt (Try a h) = [Handler] @ control_block a @ control_block h"
| "control_block [] = []"
| "control_block (c # cs) = control_stmt c @ control_block cs"

text \<open>An expression that only hands values on: literals, names, displays, and texts and
  paths put together from them (f-strings, \<^verbatim>\<open>str\<close>, \<^verbatim>\<open>/\<close>). A statement hands on
  configuration when it is a library call whose arguments are such expressions, or makes no
  library call at all.\<close>

fun config_expr :: "expr \<Rightarrow> bool"
  and config_exprs :: "expr list \<Rightarrow> bool"
  and config_item :: "item \<Rightarrow> bool"
  and config_items :: "item list \<Rightarrow> bool"
where
  "config_expr (Str t) = True"
| "config_expr (Num i) = True"
| "config_expr (Dec m e) = True"
| "config_expr (Bool b) = True"
| "config_expr NoneLit = True"
| "config_expr (Var x) = True"
| "config_expr (FString es) = config_exprs es"
| "config_expr (Fmt e d) = config_expr e"
| "config_expr (Tuple es) = config_exprs es"
| "config_expr (ListE es) = config_exprs es"
| "config_expr (Dict its) = config_items its"
| "config_expr (Geoai f as) = False"
| "config_expr (Call f e) = (f = BStr \<and> config_expr e)"
| "config_expr (OsPathExists e) = False"
| "config_expr (Method e m) = False"
| "config_expr (Device e) = False"
| "config_expr (Div a t) = config_expr a"
| "config_expr (Gt a n) = False"
| "config_expr (Subscript a b) = False"
| "config_expr (SumOver b x it) = False"
| "config_exprs [] = True"
| "config_exprs (e # es) = (config_expr e \<and> config_exprs es)"
| "config_item (Item k e) = config_expr e"
| "config_items [] = True"
| "config_items (i # is) = (config_item i \<and> config_items is)"



subsection \<open>Running a notebook cell by cell\<close>

text \<open>The cells run in order, each from the state the one before left, until one raises.\<close>

fun exec_cells :: "'x lib \<Rightarrow> stmt list list \<Rightarrow> 'x state \<Rightarrow> pyerr option \<times> 'x state" where
  "exec_cells L [] s = (None, s)"
| "exec_cells L (c # cs) s =
     (case exec_block L c s of
        (Some err, s1) \<Rightarrow> (Some err, s1)
      | (None, s1) \<Rightarrow> exec_cells L cs s1)"

subsection \<open>How a state can differ from an earlier one\<close>

text \<open>\<open>held ops s s'\<close>: the trace of \<open>s'\<close> is that of \<open>s\<close> with more calls after it, all
  of functions in \<open>ops\<close>. \<open>okx X ops s s'\<close>: moreover every name outside \<open>X\<close> is bound as
  it was.\<close>

definition held :: "string list \<Rightarrow> 'x state \<Rightarrow> 'x state \<Rightarrow> bool" where
  "held ops s s' = (\<exists>evs. trace s' = trace s @ evs \<and> set (map op evs) \<subseteq> set ops)"

definition okx :: "string set \<Rightarrow> string list \<Rightarrow> 'x state \<Rightarrow> 'x state \<Rightarrow> bool" where
  "okx X ops s s' = ((\<forall>y. y \<notin> X \<longrightarrow> env s' y = env s y) \<and> held ops s s')"

text \<open>\<open>seq ops failed s s'\<close>: the calls made from \<open>s\<close> to \<open>s'\<close> are, in order, those of a
  prefix of \<open>ops\<close>; none but the last has raised; and unless the run from \<open>s\<close> to \<open>s'\<close>
  failed, they are all of \<open>ops\<close> and none has raised.\<close>

definition seq :: "string list \<Rightarrow> bool \<Rightarrow> 'x state \<Rightarrow> 'x state \<Rightarrow> bool" where
  "seq ops failed s s' =
     (\<exists>evs. trace s' = trace s @ evs \<and> prefix (map op evs) ops
        \<and> (\<forall>ev \<in> set (butlast evs). \<not> isl (answer ev))
        \<and> (\<not> failed \<longrightarrow> map op evs = ops \<and> (\<forall>ev \<in> set evs. \<not> isl (answer ev))))"


section \<open>Sample inputs\<close>

text \<open>
  A library and a world to run the notebooks on. The library is one way \<^verbatim>\<open>geoai\<close> may
  answer: a download leaves a file named after the last part of the address, tiling leaves
  two pairs of tiles, training leaves a checkpoint and a history, inference leaves its
  output raster, and three buildings are found, of 30, 50 and 120.5 square metres. The text
  of a float is given for the three floats that the notebooks print on this library. The
  world starts with no files, and its operating system refuses nothing.
\<close>

definition put :: "fs \<Rightarrow> string \<Rightarrow> fs" where
  "put f t = f(path_parts t \<mapsto> File)"

definition kw :: "(string \<times> val) list \<Rightarrow> string \<Rightarrow> string" where
  "kw ks k = (case map_of ks k of Some (VStr t) \<Rightarrow> t | _ \<Rightarrow> [])"

definition sample_areas :: "val list" where
  "sample_areas = [VFloat (Finite 30), VFloat (Finite 50), VFloat (Finite (241 / 2))]"

definition sample_call ::
  "string \<Rightarrow> val list \<Rightarrow> (string \<times> val) list \<Rightarrow> unit world \<Rightarrow> (pyerr + val) \<times> unit world" where
  "sample_call f ps ks w =
     (if f = ''get_device'' then (Inr (VStr ''cpu''), w)
      else if f = ''download_file'' then
        (case ps of
           [VStr u] \<Rightarrow>
             (let t = last (split_slash [] u) in (Inr (VStr t), w\<lparr>files := put (files w) t\<rparr>))
         | _ \<Rightarrow> (Inl TypeError, w))
      else if f = ''stack_bands'' then
        (Inr (VStr (kw ks ''output_file'')), w\<lparr>files := put (files w) (kw ks ''output_file'')\<rparr>)
      else if f = ''export_geotiff_tiles'' then
        (let d = kw ks ''out_folder'';
             imgs = map (\<lambda>n. d @ ''/images/'' @ n) [''tile_000000.tif'', ''tile_000001.tif''];
             lbls = map (\<lambda>n. d @ ''/labels/'' @ n) [''tile_000000.tif'', ''tile_000001.tif'']
         in (Inr (VList (map VStr imgs)), w\<lparr>files := fold (\<lambda>t f. put f t) (imgs @ lbls) (files w)\<rparr>))
      else if f = ''get_instance_segmentation_model'' then (Inr (VObj 0), w)
      else if f = ''train_instance_segmentation_model'' \<or> f = ''train_segmentation_model'' then
        (let d = kw ks ''output_dir''
         in (Inr VNone,
             w\<lparr>files := put (put (files w) (d @ ''/best_model.pth'')) (d @ ''/training_history.pth'')\<rparr>))
      else if f = ''instance_segmentation'' then
        (Inr (VTuple [VStr (kw ks ''output_path''), VFloat (Finite (25 / 2))]),
         w\<lparr>files := put (files w) (kw ks ''output_path'')\<rparr>)
      else if f = ''semantic_segmentation'' then
        (Inr VNone, w\<lparr>files := put (files w) (kw ks ''output_path'')\<rparr>)
      else if f = ''orthogonalize'' then
        (case ps of
           [VStr a, VStr b] \<Rightarrow>
             (Inr (VFrame [''geometry''] [[VStr ''A''], [VStr ''B''], [VStr ''C'']]),
              w\<lparr>files := put (files w) b\<rparr>)
         | _ \<Rightarrow> (Inl TypeError, w))
      else if f = ''add_geometric_properties'' then
        (case ps of
           [VFrame cols rows] \<Rightarrow>
             (Inr (VFrame (cols @ [''area_m2'']) (map2 (\<lambda>r a. r @ [a]) rows sample_areas)), w)
         | _ \<Rightarrow> (Inl TypeError, w))
      else (Inr VNone, w))"

definition sample_float :: "flt \<Rightarrow> nat option \<Rightarrow> string" where
  "sample_float x d =
     (if x = Finite (1 / 200) \<and> d = None then ''0.005''
      else if x = Finite (1 / 5) \<and> d = None then ''0.2''
      else if x = Finite (25 / 2) \<and> d = Some 2 then ''12.50''
      else ''<float>'')"

definition sample_lib :: "unit lib" where
  "sample_lib =
     \<lparr>on_import = (\<lambda>m w. (None, w)),
      lib_call = sample_call,
      obj_call = (\<lambda>v m ps w.
         if m = ''parameters'' then (Inr (VGen [VObj 1, VObj 2]), w)
         else if m = ''numel'' then (Inr (VInt 1000), w)
         else (Inl AttributeError, w)),
      obj_attr = (\<lambda>v a. if a = ''device'' then Inr (VStr ''cpu'') else Inl AttributeError),
      repr = (\<lambda>v. ''<object>''),
      float_text = sample_float\<rparr>"

definition sample_world :: "unit world" where
  "sample_world =
     \<lparr>files = (\<lambda>p. None), refuses = (\<lambda>f p. None), environ = (\<lambda>k. None), hidden = ()\<rparr>"

text \<open>What is observed of a run: how it ended, the calls it made, and what it printed.\<close>

definition outcome :: "pyerr option \<times> 'x state \<Rightarrow> pyerr option \<times> event list \<times> string list" where
  "outcome r = (fst r, trace (snd r), stdout (snd r))"

section \<open>Notions used to state the properties\<close>






text \<open>An area above \<open>n\<close>: a number greater than \<open>n\<close>. A missing area, \<^verbatim>\<open>None\<close> or NaN, is
  not above anything.\<close>

definition above :: "val \<Rightarrow> int \<Rightarrow> bool" where
  "above v n = (case num_of v of None \<Rightarrow> False | Some x \<Rightarrow> flt_gt x n)"






definition frame_state :: "string list \<Rightarrow> val list list \<Rightarrow> unit state" where
  "frame_state cols rows =
     \<lparr>env = [''gdf_props'' \<mapsto> VFrame cols rows], world = sample_world, stdout = [], trace = []\<rparr>"

definition sample_rows :: "val list list" where
  "sample_rows =
     [[VStr ''A'', VFloat (Finite 30)], [VStr ''B'', VFloat (Finite 50)],
      [VStr ''C'', VFloat (Finite (241 / 2))], [VStr ''D'', VNone], [VStr ''E'', VInt 51]]"


section \<open>Two facts about every program of the subset\<close>

subsection \<open>Calls and bindings stay within what the text shows\<close>

lemma held_refl [simp]: "held ops s s"
  by (simp add: held_def)

lemma held_trans: "held a s s1 \<Longrightarrow> held b s1 s2 \<Longrightarrow> held (a @ b) s s2"
proof -
  assume "held a s s1" and "held b s1 s2"
  then obtain e1 e2 where "trace s1 = trace s @ e1" "set (map op e1) \<subseteq> set a"
      "trace s2 = trace s1 @ e2" "set (map op e2) \<subseteq> set b"
    unfolding held_def by blast
  then have "trace s2 = trace s @ (e1 @ e2) \<and> set (map op (e1 @ e2)) \<subseteq> set (a @ b)"
    by auto
  then show ?thesis unfolding held_def by blast
qed

lemma held_mono: "held a s s1 \<Longrightarrow> set a \<subseteq> set b \<Longrightarrow> held b s s1"
  unfolding held_def by blast

lemma held_nil: "held [] s s1 \<Longrightarrow> trace s1 = trace s"
  unfolding held_def by auto

lemma okx_refl [simp]: "okx X ops s s"
  by (simp add: okx_def)

lemma okx_trans: "okx X a s s1 \<Longrightarrow> okx X b s1 s2 \<Longrightarrow> okx X (a @ b) s s2"
  unfolding okx_def using held_trans by fastforce

lemma okx_left: "okx X a s s1 \<Longrightarrow> okx X (a @ b) s s1"
  unfolding okx_def using held_mono [of a s s1 "a @ b"] by simp

lemma okx_right: "okx X b s s1 \<Longrightarrow> okx X (a @ b) s s1"
  unfolding okx_def using held_mono [of b s s1 "a @ b"] by simp

lemma okx_wider: "okx X a s s1 \<Longrightarrow> X \<subseteq> Y \<Longrightarrow> okx Y a s s1"
  unfolding okx_def by blast


lemma okx_upd [simp]:
  "okx X ops s (s'\<lparr>stdout := out\<rparr>) = okx X ops s s'"
  "okx X ops s (s'\<lparr>world := w\<rparr>) = okx X ops s s'"
  by (simp_all add: okx_def held_def)

lemma okx_same: "okx X a s s1 \<Longrightarrow> okx X a s1 s2 \<Longrightarrow> okx X a s s2"
  unfolding okx_def using held_mono [OF held_trans, of a s s1 a s2 a] by simp

lemma okx_nil: "okx X [] s s1 \<Longrightarrow> okx X a s s1"
  unfolding okx_def held_def by simp

lemma okx_bind: "okx (insert x X) [] s (s\<lparr>env := (env s)(x := v)\<rparr>)"
  by (simp add: okx_def held_def)

lemma okx_restore: "okx (insert x X) a s s1 \<Longrightarrow> okx X a s (s1\<lparr>env := (env s1)(x := env s x)\<rparr>)"
  by (auto simp: okx_def held_def)

lemma call_geoai_snd: "okx X [f] s (snd (call_geoai L f ps ks s))"
  by (simp add: call_geoai_def okx_def held_def split: prod.split)

lemma eval_list_frame:
  assumes "\<And>e s. e \<in> set es \<Longrightarrow> okx X (ops_expr e) s (snd (eval L e s))"
  shows "okx X (ops_exprs es) s (snd (eval_list L es s))"
  using assms
proof (induction es arbitrary: s)
  case Nil
  show ?case by simp
next
  case (Cons e es)
  have a: "\<And>s. okx X (ops_expr e) s (snd (eval L e s))" using Cons.prems by simp
  have b: "\<And>s. okx X (ops_exprs es) s (snd (eval_list L es s))" using Cons by simp
  show ?case
    by (auto simp: case_prod_beta split: sum.split intro: okx_left [OF a] okx_trans [OF a b])
qed

lemma eval_args_frame:
  assumes "\<And>a s. a \<in> set as \<Longrightarrow> okx X (ops_arg a) s (snd (eval_arg L a s))"
  shows "okx X (ops_args as) s (snd (eval_args L as s))"
  using assms
proof (induction as arbitrary: s)
  case Nil
  show ?case by simp
next
  case (Cons e es)
  have a: "\<And>s. okx X (ops_arg e) s (snd (eval_arg L e s))" using Cons.prems by simp
  have b: "\<And>s. okx X (ops_args es) s (snd (eval_args L es s))" using Cons by simp
  show ?case
    by (auto simp: case_prod_beta split: sum.split intro: okx_left [OF a] okx_trans [OF a b])
qed

lemma eval_items_frame:
  assumes "\<And>a s. a \<in> set as \<Longrightarrow> okx X (ops_item a) s (snd (eval_item L a s))"
  shows "okx X (ops_items as) s (snd (eval_items L as s))"
  using assms
proof (induction as arbitrary: s)
  case Nil
  show ?case by simp
next
  case (Cons e es)
  have a: "\<And>s. okx X (ops_item e) s (snd (eval_item L e s))" using Cons.prems by simp
  have b: "\<And>s. okx X (ops_items es) s (snd (eval_items L es s))" using Cons by simp
  show ?case
    by (auto simp: case_prod_beta split: sum.split intro: okx_left [OF a] okx_trans [OF a b])
qed


lemma okx_then: "okx X a s s1 \<Longrightarrow> okx X [] s1 s2 \<Longrightarrow> okx X a s s2"
  using okx_trans [of X a s s1 "[]" s2] by simp

lemma okx_after: "okx X [] s s1 \<Longrightarrow> okx X a s1 s2 \<Longrightarrow> okx X a s s2"
  using okx_trans [of X "[]" s s1 a s2] by simp

lemma send_snd: "okx X [] s (snd (send L v m ps s))"
  by (simp add: send_def split: prod.split)

lemma binary_snd: "okx X [] s (snd (binary L m f v w s))"
  by (simp add: binary_def send_snd)

lemma iterate_snd: "okx X [] s (snd (iterate L v s))"
  by (simp add: iterate_def case_prod_beta send_snd split: sum.split val.split)

lemma length_of_snd: "okx X [] s (snd (length_of L v s))"
  by (simp add: length_of_def case_prod_beta send_snd split: sum.split val.split)

lemma next_of_snd: "okx X [] s (snd (next_of L v s))"
  by (simp add: next_of_def send_snd split: val.split list.split)

lemma add_snd: "okx X [] s (snd (add L a b s))"
  by (simp add: add_def send_snd)

lemma format_snd: "okx X [] s (snd (format L v d s))"
  by (simp add: format_def case_prod_beta send_snd split: option.split sum.split val.split)

lemma test_snd: "okx X [] s (snd (test L v s))"
  by (simp add: test_def case_prod_beta send_snd split: sum.split val.split)

lemma call_function_snd: "okx X [] s (snd (call_function L f v s))"
  by (simp add: call_function_def length_of_snd next_of_snd split: builtin.split)

lemma call_method_snd: "okx X [] s (snd (call_method L v m s))"
  by (simp add: call_method_def send_snd split: val.split prod.split)

lemma eval_sum_frame:
  assumes "\<And>s. okx (insert x X) (ops_expr b) s (snd (eval L b s))"
  shows "okx (insert x X) (ops_expr b) s (snd (eval_sum L b x vs acc s))"
proof (induction vs arbitrary: acc s)
  case Nil
  show ?case by simp
next
  case (Cons v vs)
  have a: "okx (insert x X) (ops_expr b) s (snd (eval L b (s\<lparr>env := (env s)(x \<mapsto> v)\<rparr>)))" for s
    using okx_trans [OF okx_bind assms] by simp
  have c: "okx (insert x X) (ops_expr b) s
      (snd (add L acc w (snd (eval L b (s\<lparr>env := (env s)(x \<mapsto> v)\<rparr>)))))" for s acc w
    by (rule okx_then [OF a add_snd])
  show ?case
    by (auto simp: case_prod_beta split: sum.split intro: a c okx_same [OF c Cons.IH])
qed

lemma eval_frame:
  fixes e :: expr and a :: arg and i :: item
  shows "okx X (ops_expr e) s (snd (eval L e s))"
    and "okx X (ops_arg a) s (snd (eval_arg L a s))"
    and "okx X (ops_item i) s (snd (eval_item L i s))"
proof (induction e and a and i arbitrary: X s and X s and X s)
  case (Var x)
  show ?case by (simp split: option.split)
next
  case (FString es)
  show ?case
    using eval_list_frame [of es X L s, OF FString]
    by (simp add: case_prod_beta split: sum.split)
next
  case (Fmt e d)
  show ?case
    using Fmt [of X s] okx_then [OF Fmt format_snd, of X s L]
    by (simp add: case_prod_beta split: sum.split)
next
  case (Tuple es)
  show ?case
    using eval_list_frame [of es X L s, OF Tuple]
    by (simp add: case_prod_beta split: sum.split)
next
  case (ListE es)
  show ?case
    using eval_list_frame [of es X L s, OF ListE]
    by (simp add: case_prod_beta split: sum.split)
next
  case (Dict its)
  show ?case
    using eval_items_frame [of its X L s, OF Dict]
    by (simp add: case_prod_beta split: sum.split)
next
  case (Geoai f as)
  have a: "okx X (ops_args as) s (snd (eval_args L as s))" for s
    by (rule eval_args_frame [OF Geoai])
  show ?case
    by (auto simp: case_prod_beta split: option.split sum.split
             intro: okx_left [OF a] okx_trans [OF a call_geoai_snd])
next
  case (Call f e)
  show ?case
    using Call [of X s] okx_then [OF Call call_function_snd, of X s L]
    by (simp add: case_prod_beta split: sum.split)
next
  case (OsPathExists e)
  show ?case
    using OsPathExists [of X s] by (simp add: case_prod_beta split: option.split sum.split)
next
  case (Method e m)
  show ?case
    using Method [of X s] okx_then [OF Method call_method_snd, of X s L]
    by (simp add: case_prod_beta split: sum.split)
next
  case (Device e)
  show ?case using Device [of X s] by (simp add: case_prod_beta split: sum.split)
next
  case (Div a t)
  show ?case
    using Div [of X s] okx_then [OF Div binary_snd, of X s L]
    by (simp add: case_prod_beta split: sum.split)
next
  case (Gt a n)
  show ?case
    using Gt [of X s] okx_then [OF Gt binary_snd, of X s L]
    by (simp add: case_prod_beta split: sum.split)
next
  case (Subscript a b)
  have ab: "okx X (ops_expr a @ ops_expr b) s (snd (eval L b (snd (eval L a s))))"
    by (rule okx_trans [OF Subscript(1) Subscript(2)])
  show ?case
    using okx_then [OF ab binary_snd]
    by (auto simp: case_prod_beta split: sum.split intro: okx_left [OF Subscript(1)] ab)
next
  case (SumOver b x it)
  have g: "okx (insert x X) (ops_expr b) s (snd (eval_sum L b x vs acc s))" for s vs acc
    by (rule eval_sum_frame [OF SumOver(1)])
  have r: "okx X (ops_expr b) s
      ((snd (eval_sum L b x vs acc s))\<lparr>env := (env (snd (eval_sum L b x vs acc s)))(x := env s x)\<rparr>)"
    for s vs acc
    by (rule okx_restore [OF g])
  have i: "okx X (ops_expr it) s (snd (iterate L v (snd (eval L it s))))" for v
    by (rule okx_then [OF SumOver(2) iterate_snd])
  show ?case
    by (auto simp: case_prod_beta split: option.split sum.split
             intro: okx_left [OF SumOver(2)] okx_left [OF i] okx_trans [OF i r])
next
  case (Pos e)
  show ?case using Pos [of X s] by (simp add: case_prod_beta split: sum.split)
next
  case (Kw k e)
  show ?case using Kw [of X s] by (simp add: case_prod_beta split: sum.split)
next
  case (StarStar e)
  show ?case using StarStar [of X s] by (simp add: case_prod_beta split: sum.split)
next
  case (Item k e)
  show ?case using Item [of X s] by (simp add: case_prod_beta split: sum.split)
qed simp_all

lemma fold_bind_other:
  "y \<notin> set xs \<Longrightarrow> fold (\<lambda>xv e. e(fst xv \<mapsto> snd xv)) (zip xs vs) e y = e y"
  by (induction xs arbitrary: vs e) (auto simp: zip_Cons1 split: list.splits)

lemma okx_env:
  "okx X a s s1 \<Longrightarrow> (\<And>y. y \<notin> X \<Longrightarrow> E y = env s1 y) \<Longrightarrow> okx X a s (s1\<lparr>env := E\<rparr>)"
  by (simp add: okx_def held_def)

lemma assign_snd:
  "set (assigned_target t) \<subseteq> X \<Longrightarrow> okx X [] s (snd (assign L t v s))"
proof (cases t)
  case (Name x)
  assume "set (assigned_target t) \<subseteq> X"
  then show ?thesis using Name by (simp add: assign_def okx_def held_def)
next
  case (Names xs)
  assume a: "set (assigned_target t) \<subseteq> X"
  have "okx X [] s ((snd (iterate L v s))\<lparr>env := fold (\<lambda>xv e. e(fst xv \<mapsto> snd xv)) (zip xs vs)
      (env (snd (iterate L v s)))\<rparr>)" for vs
    using a Names by (intro okx_env iterate_snd fold_bind_other) auto
  then show ?thesis
    using Names by (simp add: assign_def case_prod_beta iterate_snd split: sum.split)
next
  case (Environ k)
  then show ?thesis by (simp add: assign_def split: option.split val.split)
qed

lemma import_module_snd: "m \<in> X \<Longrightarrow> okx X [] s (snd (import_module L m s))"
  by (auto simp: import_module_def okx_def held_def split: prod.split option.split)

lemma exec_block_frame:
  assumes "\<And>c X s. c \<in> set cs \<Longrightarrow> set (assigned c) \<subseteq> X \<Longrightarrow> okx X (ops_stmt c) s (snd (exec L c s))"
  shows "set (assigned_block cs) \<subseteq> X \<Longrightarrow> okx X (ops_block cs) s (snd (exec_block L cs s))"
  using assms
proof (induction cs arbitrary: s)
  case Nil
  show ?case by simp
next
  case (Cons c cs)
  have a: "okx X (ops_stmt c) s (snd (exec L c s))" for s
    using Cons.prems by simp
  have b: "okx X (ops_block cs) s (snd (exec_block L cs s))" for s
    using Cons by simp
  show ?case
    by (auto simp: case_prod_beta split: option.split intro: okx_left [OF a] okx_trans [OF a b])
qed

lemma exec_for_frame:
  assumes "\<And>s. okx X ops s (snd (exec_block L body s))"
    and "set (assigned_target t) \<subseteq> X"
  shows "okx X ops s (snd (exec_for L t body vs s))"
proof (induction vs arbitrary: s)
  case Nil
  show ?case by simp
next
  case (Cons v vs)
  have n: "okx X ops s (snd (assign L t v s))" for s
    by (rule okx_nil [OF assign_snd [OF assms(2)]])
  have a: "okx X ops s (snd (exec_block L body (snd (assign L t v s))))" for s
    by (rule okx_after [OF assign_snd [OF assms(2)] assms(1)])
  show ?case
    by (auto simp: case_prod_beta split: option.split intro: n a okx_same [OF a Cons.IH])
qed

lemma exec_frame:
  "set (assigned c) \<subseteq> X \<Longrightarrow> okx X (ops_stmt c) s (snd (exec L c s))"
proof (induction c arbitrary: X s)
  case (Import m)
  then show ?case by (simp add: import_module_snd)
next
  case ImportPath
  then show ?case by (simp add: okx_def held_def)
next
  case (Assign t e)
  have a: "okx X (ops_expr e) s (snd (eval L e s))" by (rule eval_frame)
  have b: "okx X (ops_expr e) s (snd (assign L t v (snd (eval L e s))))" for v
    using Assign by (intro okx_then [OF a assign_snd]) simp
  show ?case
    by (auto simp: case_prod_beta split: sum.split intro: a b)
next
  case (Expr e)
  show ?case using eval_frame(1) [of X e s L] by (simp add: case_prod_beta split: sum.split)
next
  case (If c a b)
  have c: "okx X (ops_expr c) s (snd (test L v (snd (eval L c s))))" for s v
    by (rule okx_then [OF eval_frame(1) test_snd])
  have a: "okx X (ops_block a) s (snd (exec_block L a s))" for s
    using exec_block_frame [of a L X s] If by simp
  have b: "okx X (ops_block b) s (snd (exec_block L b s))" for s
    using exec_block_frame [of b L X s] If by simp
  show ?case
    using okx_trans [OF c okx_left [OF a, of "ops_block b"]] okx_trans [OF c okx_right [OF b, of "ops_block a"]]
    by (auto simp: case_prod_beta split: sum.split intro: okx_left [OF c] okx_left [OF eval_frame(1)])
next
  case (For t e body)
  have c: "okx X (ops_expr e) s (snd (iterate L v (snd (eval L e s))))" for s v
    by (rule okx_then [OF eval_frame(1) iterate_snd])
  have a: "okx X (ops_block body) s (snd (exec_block L body s))" for s
    using exec_block_frame [of body L X s] For by simp
  have f: "okx X (ops_block body) s (snd (exec_for L t body vs s))" for s vs
    using exec_for_frame [of X "ops_block body" L body t s vs] a For.prems by simp
  show ?case
    using okx_trans [OF c f]
    by (auto simp: case_prod_beta split: sum.split intro: okx_left [OF c] okx_left [OF eval_frame(1)])
next
  case (Try a h)
  have a: "okx X (ops_block a) s (snd (exec_block L a s))" for s
    using exec_block_frame [of a L X s] Try by simp
  have h: "okx X (ops_block h) s (snd (exec_block L h s))" for s
    using exec_block_frame [of h L X s] Try by simp
  show ?case
    using okx_trans [OF a h]
    by (auto simp: case_prod_beta split: option.split intro: okx_left [OF a])
qed

lemma exec_block_okx:
  "set (assigned_block cs) \<subseteq> X \<Longrightarrow> okx X (ops_block cs) s (snd (exec_block L cs s))"
  by (rule exec_block_frame) (auto intro: exec_frame)

subsection \<open>Flat programs call the library in the order of their text\<close>

lemma seq_stay: "trace s' = trace s \<Longrightarrow> seq [] f s s'"
  by (simp add: seq_def)

lemma seq_weaken: "seq ops False s s' \<Longrightarrow> seq ops f s s'"
  by (auto simp: seq_def dest: in_set_butlastD)

lemma seq_failL: "seq a True s s1 \<Longrightarrow> seq (a @ b) True s s1"
  by (auto simp: seq_def)

lemma seq_app: "seq a False s s1 \<Longrightarrow> seq b f s1 s2 \<Longrightarrow> seq (a @ b) f s s2"
proof -
  assume a: "seq a False s s1" and b: "seq b f s1 s2"
  from a obtain e1 where e1: "trace s1 = trace s @ e1" "map op e1 = a" "\<forall>ev \<in> set e1. \<not> isl (answer ev)"
    by (auto simp: seq_def)
  from b obtain e2 where e2: "trace s2 = trace s1 @ e2" "prefix (map op e2) b"
      "\<forall>ev \<in> set (butlast e2). \<not> isl (answer ev)"
      "\<not> f \<longrightarrow> map op e2 = b \<and> (\<forall>ev \<in> set e2. \<not> isl (answer ev))"
    by (auto simp: seq_def)
  have "\<forall>ev \<in> set (butlast (e1 @ e2)). \<not> isl (answer ev)"
    using e1(3) e2(3) by (auto simp: butlast_append dest: in_set_butlastD)
  then show ?thesis
    unfolding seq_def using e1 e2 by (intro exI [of _ "e1 @ e2"]) auto
qed

lemma seq_then: "seq a f s s1 \<Longrightarrow> trace s2 = trace s1 \<Longrightarrow> seq a f s s2"
  by (simp add: seq_def)

lemma seq_call: "seq [f] (isl (fst (call_geoai L f ps ks s))) s (snd (call_geoai L f ps ks s))"
  by (simp add: call_geoai_def seq_def split: prod.split)

lemma okx_trace: "okx X [] s s' \<Longrightarrow> trace s' = trace s"
  by (simp add: okx_def held_def)


lemma trace_send [simp]: "trace (snd (send L v m ps s)) = trace s"
  by (rule okx_trace [OF send_snd [of "{}"]])

lemma trace_binary [simp]: "trace (snd (binary L m f v w s)) = trace s"
  by (rule okx_trace [OF binary_snd [of "{}"]])

lemma trace_iterate [simp]: "trace (snd (iterate L v s)) = trace s"
  by (rule okx_trace [OF iterate_snd [of "{}"]])

lemma trace_add [simp]: "trace (snd (add L a b s)) = trace s"
  by (rule okx_trace [OF add_snd [of "{}"]])

lemma trace_format [simp]: "trace (snd (format L v d s)) = trace s"
  by (rule okx_trace [OF format_snd [of "{}"]])

lemma trace_test [simp]: "trace (snd (test L v s)) = trace s"
  by (rule okx_trace [OF test_snd [of "{}"]])

lemma trace_call_function [simp]: "trace (snd (call_function L f v s)) = trace s"
  by (rule okx_trace [OF call_function_snd [of "{}"]])

lemma trace_call_method [simp]: "trace (snd (call_method L v m s)) = trace s"
  by (rule okx_trace [OF call_method_snd [of "{}"]])

lemma trace_assign [simp]: "trace (snd (assign L t v s)) = trace s"
  by (rule okx_trace [OF assign_snd [of t "set (assigned_target t)"]]) simp

lemma trace_import_module [simp]: "trace (snd (import_module L m s)) = trace s"
  by (rule okx_trace [OF import_module_snd [of m "{m}"]]) simp

lemma seq_eval_list:
  assumes "\<And>e s. e \<in> set es \<Longrightarrow> flat_expr e \<Longrightarrow> seq (ops_expr e) (isl (fst (eval L e s))) s (snd (eval L e s))"
  shows "flat_exprs es \<Longrightarrow> seq (ops_exprs es) (isl (fst (eval_list L es s))) s (snd (eval_list L es s))"
  using assms
proof (induction es arbitrary: s)
  case Nil
  show ?case by (simp add: seq_stay)
next
  case (Cons e es)
  have a: "seq (ops_expr e) (isl (fst (eval L e s))) s (snd (eval L e s))" for s
    using Cons.prems by simp
  have b: "seq (ops_exprs es) (isl (fst (eval_list L es s))) s (snd (eval_list L es s))" for s
    using Cons by simp
  show ?case
    using a [of s] b [of "snd (eval L e s)"]
    by (auto simp: case_prod_beta split: sum.split intro: seq_failL seq_app)
qed

lemma seq_fail_refl [simp]: "seq ops True s s"
  by (simp add: seq_def)

lemma seq_pure: "seq a False s s1 \<Longrightarrow> trace s2 = trace s1 \<Longrightarrow> seq a f s s2"
  by (rule seq_then [OF seq_weaken])

lemma seq_eval_args:
  assumes "\<And>a s. a \<in> set as \<Longrightarrow> flat_arg a \<Longrightarrow> seq (ops_arg a) (isl (fst (eval_arg L a s))) s (snd (eval_arg L a s))"
  shows "flat_args as \<Longrightarrow> seq (ops_args as) (isl (fst (eval_args L as s))) s (snd (eval_args L as s))"
  using assms
proof (induction as arbitrary: s)
  case Nil
  show ?case by (simp add: seq_stay)
next
  case (Cons e es)
  have a: "seq (ops_arg e) (isl (fst (eval_arg L e s))) s (snd (eval_arg L e s))" for s
    using Cons.prems by simp
  have b: "seq (ops_args es) (isl (fst (eval_args L es s))) s (snd (eval_args L es s))" for s
    using Cons by simp
  show ?case
    using a [of s] b [of "snd (eval_arg L e s)"]
    by (auto simp: case_prod_beta split: sum.split intro: seq_failL seq_app)
qed

lemma seq_eval_items:
  assumes "\<And>a s. a \<in> set as \<Longrightarrow> flat_item a \<Longrightarrow> seq (ops_item a) (isl (fst (eval_item L a s))) s (snd (eval_item L a s))"
  shows "flat_items as \<Longrightarrow> seq (ops_items as) (isl (fst (eval_items L as s))) s (snd (eval_items L as s))"
  using assms
proof (induction as arbitrary: s)
  case Nil
  show ?case by (simp add: seq_stay)
next
  case (Cons e es)
  have a: "seq (ops_item e) (isl (fst (eval_item L e s))) s (snd (eval_item L e s))" for s
    using Cons.prems by simp
  have b: "seq (ops_items es) (isl (fst (eval_items L es s))) s (snd (eval_items L es s))" for s
    using Cons by simp
  show ?case
    using a [of s] b [of "snd (eval_item L e s)"]
    by (auto simp: case_prod_beta split: sum.split intro: seq_failL seq_app)
qed


lemma trace_eval_sum:
  "ops_expr b = [] \<Longrightarrow> trace (snd (eval_sum L b x vs acc s)) = trace s"
  using eval_sum_frame [of x "{}" b L s vs acc, OF eval_frame(1)] by (simp add: okx_def held_def)

lemma seq_eval:
  fixes e :: expr and a :: arg and i :: item
  shows "flat_expr e \<Longrightarrow> seq (ops_expr e) (isl (fst (eval L e s))) s (snd (eval L e s))"
    and "flat_arg a \<Longrightarrow> seq (ops_arg a) (isl (fst (eval_arg L a s))) s (snd (eval_arg L a s))"
    and "flat_item i \<Longrightarrow> seq (ops_item i) (isl (fst (eval_item L i s))) s (snd (eval_item L i s))"
proof (induction e and a and i arbitrary: s and s and s)
  case (Var x)
  show ?case by (simp add: seq_stay split: option.split)
next
  case (FString es)
  show ?case
    using seq_eval_list [of es L s, OF FString(1)] FString(2)
    by (auto simp: case_prod_beta split: sum.split intro: seq_weaken)
next
  case (Fmt e d)
  show ?case using Fmt(1) [of s] Fmt(2)
    by (auto simp: case_prod_beta split: sum.split intro: seq_pure)
next
  case (Tuple es)
  show ?case
    using seq_eval_list [of es L s, OF Tuple(1)] Tuple(2)
    by (auto simp: case_prod_beta split: sum.split)
next
  case (ListE es)
  show ?case
    using seq_eval_list [of es L s, OF ListE(1)] ListE(2)
    by (auto simp: case_prod_beta split: sum.split)
next
  case (Dict its)
  show ?case
    using seq_eval_items [of its L s, OF Dict(1)] Dict(2)
    by (auto simp: case_prod_beta split: sum.split)
next
  case (Geoai f as)
  have a: "seq (ops_args as) (isl (fst (eval_args L as s))) s (snd (eval_args L as s))"
    using seq_eval_args [of as L s, OF Geoai(1)] Geoai(2) by simp
  show ?case
    using a seq_call [of f L _ _ "snd (eval_args L as s)"]
    by (auto simp: case_prod_beta check_args_def split: option.split sum.split if_splits
             intro: seq_failL seq_app)
next
  case (Call f e)
  show ?case
    using Call(1) [of s] Call(2)
    by (auto simp: case_prod_beta split: sum.split intro: seq_pure)
next
  case (OsPathExists e)
  show ?case
    using OsPathExists(1) [of s] OsPathExists(2)
    by (auto simp: case_prod_beta split: option.split sum.split intro: seq_weaken)
next
  case (Method e m)
  show ?case
    using Method(1) [of s] Method(2)
    by (auto simp: case_prod_beta split: sum.split intro: seq_pure)
next
  case (Device e)
  show ?case using Device(1) [of s] Device(2)
    by (auto simp: case_prod_beta split: sum.split intro: seq_weaken)
next
  case (Div a t)
  show ?case
    using Div(1) [of s] Div(2)
    by (auto simp: case_prod_beta split: sum.split intro: seq_pure)
next
  case (Gt a n)
  show ?case
    using Gt(1) [of s] Gt(2)
    by (auto simp: case_prod_beta split: sum.split intro: seq_pure)
next
  case (Subscript a b)
  show ?case
    using Subscript(1) [of s] Subscript(2) [of "snd (eval L a s)"] Subscript(3)
    by (auto simp: case_prod_beta split: sum.split intro: seq_failL seq_app seq_pure [OF seq_app])
next
  case (SumOver b x it)
  have t: "trace (snd (eval_sum L b x vs acc s)) = trace s" for vs acc s
    using SumOver(3) by (simp add: trace_eval_sum)
  show ?case
    using SumOver(2) [of s] SumOver(3)
    by (auto simp: case_prod_beta t split: option.split sum.split intro: seq_weaken seq_pure)
next
  case (Pos e)
  show ?case using Pos(1) [of s] Pos(2) by (auto simp: case_prod_beta split: sum.split)
next
  case (Kw k e)
  show ?case using Kw(1) [of s] Kw(2) by (auto simp: case_prod_beta split: sum.split)
next
  case (StarStar e)
  show ?case using StarStar(1) [of s] StarStar(2)
    by (auto simp: case_prod_beta split: sum.split intro: seq_weaken)
next
  case (Item k e)
  show ?case using Item(1) [of s] Item(2) by (auto simp: case_prod_beta split: sum.split)
qed (simp_all add: seq_stay)

lemma trace_exec_block: "ops_block cs = [] \<Longrightarrow> trace (snd (exec_block L cs s)) = trace s"
  using exec_block_okx [of cs "set (assigned_block cs)" s L] by (simp add: okx_def held_def)

lemma trace_exec_for: "ops_block body = [] \<Longrightarrow> trace (snd (exec_for L t body vs s)) = trace s"
proof -
  assume a: "ops_block body = []"
  let ?X = "set (assigned_target t) \<union> set (assigned_block body)"
  have "okx ?X [] s (snd (exec_for L t body vs s))"
    by (rule exec_for_frame) (use a exec_block_okx [of body ?X _ L] in auto)
  then show ?thesis by (simp add: okx_def held_def)
qed

lemma seq_exec:
  "flat_stmt c \<Longrightarrow> seq (ops_stmt c) (fst (exec L c s) \<noteq> None) s (snd (exec L c s))"
proof (cases c)
  case (Import m)
  then show ?thesis by (simp add: seq_stay)
next
  case ImportPath
  then show ?thesis by (simp add: seq_stay)
next
  case (Assign t e)
  assume "flat_stmt c"
  then have a: "seq (ops_expr e) (isl (fst (eval L e s))) s (snd (eval L e s))"
    using Assign by (intro seq_eval(1)) simp
  show ?thesis
    unfolding Assign using a
    by (auto simp: case_prod_beta split: sum.split intro: seq_weaken seq_pure)
next
  case (Expr e)
  assume "flat_stmt c"
  then have a: "seq (ops_expr e) (isl (fst (eval L e s))) s (snd (eval L e s))"
    using Expr by (intro seq_eval(1)) simp
  show ?thesis
    unfolding Expr using a by (auto simp: case_prod_beta split: sum.split)
next
  case (If b x y)
  assume f: "flat_stmt c"
  then have a: "seq (ops_expr b) (isl (fst (eval L b s))) s (snd (eval L b s))"
    using If by (intro seq_eval(1)) simp
  show ?thesis
    unfolding If using a f If
    by (auto simp: case_prod_beta trace_exec_block split: sum.split intro: seq_pure)
next
  case (For t e body)
  assume f: "flat_stmt c"
  then have a: "seq (ops_expr e) (isl (fst (eval L e s))) s (snd (eval L e s))"
    using For by (intro seq_eval(1)) simp
  show ?thesis
    unfolding For using a f For
    by (auto simp: case_prod_beta trace_exec_for split: sum.split intro: seq_pure seq_weaken)
next
  case (Try a h)
  assume "flat_stmt c"
  then show ?thesis using Try by simp
qed

lemma seq_exec_block:
  "list_all flat_stmt cs \<Longrightarrow>
   seq (ops_block cs) (fst (exec_block L cs s) \<noteq> None) s (snd (exec_block L cs s))"
proof (induction cs arbitrary: s)
  case Nil
  show ?case by (simp add: seq_stay)
next
  case (Cons c cs)
  have a: "seq (ops_stmt c) (fst (exec L c s) \<noteq> None) s (snd (exec L c s))"
    using Cons.prems by (intro seq_exec) simp
  have b: "seq (ops_block cs) (fst (exec_block L cs s) \<noteq> None) s (snd (exec_block L cs s))" for s
    using Cons by simp
  show ?case
    using a b [of "snd (exec L c s)"]
    by (auto simp: case_prod_beta split: option.split intro: seq_failL seq_app)
qed

section \<open>The notebooks\<close>

subsection \<open>Running cell by cell, and the sample runs\<close>

lemma str_of_simps:
  "str_of L (VStr t) = t" "str_of L (VPath p) = join_parts p" "str_of L (VInt i) = show_int i"
  "str_of L (VBool b) = (if b then ''True'' else ''False'')" "str_of L VNone = ''None''"
  "str_of L (VFloat x) = float_text L x None" "str_of L (VTypeOf v) = repr L (VTypeOf v)"
  by (simp_all add: str_of_def)

lemma bind_two:
  "length vs = Suc (Suc 0) \<Longrightarrow>
   fold (\<lambda>xv e. e(fst xv \<mapsto> snd xv)) (zip [a, b] vs) E = E(a \<mapsto> vs ! 0, b \<mapsto> vs ! 1)"
  by (cases vs; cases "tl vs") auto

lemma exec_block_append:
  "exec_block L (a @ b) s =
     (case exec_block L a s of (Some err, s1) \<Rightarrow> (Some err, s1) | (None, s1) \<Rightarrow> exec_block L b s1)"
  by (induction a arbitrary: s) (auto split: prod.split option.split)

lemma exec_block_concat: "exec_block L (concat cs) s = exec_cells L cs s"
  by (induction cs arbitrary: s) (auto simp: exec_block_append split: prod.split option.split)

lemma run_cells: "run L nb w = exec_cells L nb (initial w)"
  by (simp add: run_def exec_block_concat)

lemma cell_exec: "c = b \<Longrightarrow> exec_block L c s = exec_block L b s"
  by simp

lemmas inst_cells_exec =
  cell_exec [OF inst_install_def] cell_exec [OF inst_imports_def] cell_exec [OF inst_setup_def]
  cell_exec [OF inst_urls_def] cell_exec [OF inst_download_def] cell_exec [OF inst_raster_info_def]
  cell_exec [OF inst_view_vector_def] cell_exec [OF inst_view_raster_def] cell_exec [OF inst_tiles_def]
  cell_exec [OF inst_model_def] cell_exec [OF inst_training_config_def] cell_exec [OF inst_train_def]
  cell_exec [OF inst_plot_def] cell_exec [OF inst_check_def] cell_exec [OF inst_inference_def]
  cell_exec [OF inst_view_result_def] cell_exec [OF inst_vectorize_def] cell_exec [OF inst_props_def]
  cell_exec [OF inst_view_props_def] cell_exec [OF inst_filter_def] cell_exec [OF inst_split_map_def]


lemma sample_fields:
  "lib_call sample_lib = sample_call"
  "on_import sample_lib m w = (None, w)"
  "obj_call sample_lib v m ps w = (if m = ''parameters'' then (Inr (VGen [VObj 1, VObj 2]), w)
         else if m = ''numel'' then (Inr (VInt 1000), w)
         else (Inl AttributeError, w))"
  "obj_attr sample_lib v a = (if a = ''device'' then Inr (VStr ''cpu'') else Inl AttributeError)"
  "repr sample_lib v = ''<object>''"
  "float_text sample_lib = sample_float"
  by (simp_all add: sample_lib_def)

lemma show_ints:
  "show_int 0 = ''0''" "show_int 1 = ''1''" "show_int 2 = ''2''" "show_int 3 = ''3''" "show_int 12 = ''12''"
  "show_int 20 = ''20''" "show_int 2000 = ''2000''"
  by code_simp+

lemma local_names:
  "last (split_slash [] naip_rgb_train_url) = ''naip_rgb_train.tif''"
  "last (split_slash [] naip_train_buildings_url) = ''naip_train_buildings.geojson''"
  "last (split_slash [] naip_test_url) = ''naip_test.tif''"
  "last (split_slash [] las_vegas_train_naip_url) = ''las_vegas_train_naip.tif''"
  "last (split_slash [] las_vegas_train_hag_url) = ''las_vegas_train_hag.tif''"
  "last (split_slash [] las_vegas_buildings_train_url) = ''las_vegas_buildings_train.geojson''"
  "last (split_slash [] las_vegas_test_naip_url) = ''las_vegas_test_naip.tif''"
  "last (split_slash [] las_vegas_test_hag_url) = ''las_vegas_test_hag.tif''"
  by code_simp+

lemma sample_paths:
  "path_parts ''instance_segmentation_buildings'' = [''instance_segmentation_buildings'']"
  "path_parts ''models'' = [''models'']" "path_parts ''output'' = [''output'']"
  "path_parts ''best_model.pth'' = [''best_model.pth'']"
  "path_parts ''training_history.pth'' = [''training_history.pth'']"
  "path_parts ''instance_segmentation_result.tif'' = [''instance_segmentation_result.tif'']"
  "path_parts ''instance_segmentation_buildings/models/best_model.pth'' =
     [''instance_segmentation_buildings'', ''models'', ''best_model.pth'']"
  "wants_dir ''instance_segmentation_buildings/models/best_model.pth'' = False"
  by code_simp+

lemmas run_simps = initial_def
     call_function_def resolve_def name_of_def assign_def import_module_def
     str_of_simps Let_def build_dict_def call_method_def method_name_def
     binary_def is_obj_def send_def iterate_def length_of_def next_of_def add_def format_def test_def
     truth_def op_div_def path_div_def root_of_def sample_paths path_of_def path_exists_def
     iter_of_def bind_two check_args_def keywords_of_def add_num_def int_of_def num_of_def
     call_geoai_def get_device_def sample_fields sample_call_def sample_world_def sample_float_def
     put_def kw_def path_mkdir.simps os_mkdir_def is_dir_def lookup_def is_root_def parent_def
     show_ints local_names sample_areas_def format_fixed_def
     op_gt_def op_subscript_def cell_gt_def scalar_gt_def flt_gt_def column_def places_def cell_at_def
     select_rows_def is_bool_def len_of_def
     ex_bool_eq all_bool_eq

lemma inst_sample_run:
  "outcome (run sample_lib instance_segmentation_nb sample_world) =
     (None, [\<lparr>op = ''get_device'', pos_args = [], kw_args = [], answer = Inr (VStr
       ''cpu'')\<rparr>, \<lparr>op = ''download_file'', pos_args = [VStr naip_rgb_train_url],
       kw_args = [], answer = Inr (VStr ''naip_rgb_train.tif'')\<rparr>, \<lparr>op =
       ''download_file'', pos_args = [VStr naip_train_buildings_url], kw_args = [], answer = Inr
       (VStr ''naip_train_buildings.geojson'')\<rparr>, \<lparr>op = ''download_file'', pos_args
       = [VStr naip_test_url], kw_args = [], answer = Inr (VStr ''naip_test.tif'')\<rparr>,
       \<lparr>op = ''get_raster_info'', pos_args = [VStr ''naip_rgb_train.tif''], kw_args = [],
       answer = Inr VNone\<rparr>, \<lparr>op = ''view_vector_interactive'', pos_args = [VStr
       ''naip_train_buildings.geojson''], kw_args = [(''tiles'', VStr naip_rgb_train_url)],
       answer = Inr VNone\<rparr>, \<lparr>op = ''view_raster'', pos_args = [VStr
       naip_test_url], kw_args = [], answer = Inr VNone\<rparr>, \<lparr>op =
       ''export_geotiff_tiles'', pos_args = [], kw_args = [(''in_raster'', VStr
       ''naip_rgb_train.tif''), (''out_folder'', VStr ''instance_segmentation_buildings''),
       (''in_class_data'', VStr ''naip_train_buildings.geojson''), (''tile_size'', VInt 512),
       (''stride'', VInt 256), (''buffer_radius'', VInt 0)], answer = Inr (VList [VStr
       ''instance_segmentation_buildings/images/tile_000000.tif'', VStr
       ''instance_segmentation_buildings/images/tile_000001.tif''])\<rparr>, \<lparr>op =
       ''get_instance_segmentation_model'', pos_args = [], kw_args = [(''num_classes'', VInt 2),
       (''num_channels'', VInt 3), (''pretrained'', VBool True)], answer = Inr (VObj 0)\<rparr>,
       \<lparr>op = ''train_instance_segmentation_model'', pos_args = [], kw_args =
       [(''images_dir'', VStr ''instance_segmentation_buildings/images''), (''labels_dir'', VStr
       ''instance_segmentation_buildings/labels''), (''output_dir'', VStr
       ''instance_segmentation_buildings/models''), (''num_classes'', VInt 2),
       (''num_channels'', VInt 3), (''batch_size'', VInt 2), (''num_epochs'', VInt 20),
       (''learning_rate'', VFloat (Finite (1 / 200))), (''val_split'', VFloat (Finite (1 / 5))),
       (''visualize'', VBool True), (''device'', VStr ''cpu''), (''verbose'', VBool True)],
       answer = Inr VNone\<rparr>, \<lparr>op = ''plot_performance_metrics'', pos_args = [],
       kw_args = [(''history_path'', VStr
       ''instance_segmentation_buildings/models/training_history.pth''), (''figsize'', VTuple
       [VInt 15, VInt 5]), (''verbose'', VBool True)], answer = Inr VNone\<rparr>, \<lparr>op =
       ''instance_segmentation'', pos_args = [], kw_args = [(''input_path'', VStr
       ''naip_test.tif''), (''output_path'', VStr
       ''instance_segmentation_buildings/output/instance_segmentation_result.tif''),
       (''model_path'', VStr ''instance_segmentation_buildings/models/best_model.pth''),
       (''window_size'', VInt 512), (''overlap'', VInt 128), (''confidence_threshold'', VFloat
       (Finite (1 / 2))), (''batch_size'', VInt 2), (''num_channels'', VInt 3),
       (''num_classes'', VInt 2), (''device'', VStr ''cpu'')], answer = Inr (VTuple [VStr
       ''instance_segmentation_buildings/output/instance_segmentation_result.tif'', VFloat
       (Finite (25 / 2))])\<rparr>, \<lparr>op = ''view_raster'', pos_args = [VStr
       ''instance_segmentation_buildings/output/instance_segmentation_result.tif''], kw_args =
       [(''nodata'', VInt 0), (''colormap'', VStr ''tab20''), (''opacity'', VFloat (Finite (7 /
       10))), (''basemap'', VStr naip_test_url)], answer = Inr VNone\<rparr>, \<lparr>op =
       ''orthogonalize'', pos_args = [VStr
       ''instance_segmentation_buildings/output/instance_segmentation_result.tif'', VStr
       ''building_predictions.geojson''], kw_args = [(''epsilon'', VInt 2)], answer = Inr
       (VFrame [''geometry''] [[VStr ''A''], [VStr ''B''], [VStr ''C'']])\<rparr>, \<lparr>op =
       ''add_geometric_properties'', pos_args = [VFrame [''geometry''] [[VStr ''A''], [VStr
       ''B''], [VStr ''C'']]], kw_args = [(''area_unit'', VStr ''m2''), (''length_unit'', VStr
       ''m'')], answer = Inr (VFrame [''geometry'', ''area_m2''] [[VStr ''A'', VFloat (Finite
       30)], [VStr ''B'', VFloat (Finite 50)], [VStr ''C'', VFloat (Finite (241 /
       2))]])\<rparr>, \<lparr>op = ''view_vector_interactive'', pos_args = [VFrame
       [''geometry'', ''area_m2''] [[VStr ''A'', VFloat (Finite 30)], [VStr ''B'', VFloat
       (Finite 50)], [VStr ''C'', VFloat (Finite (241 / 2))]]], kw_args = [(''column'', VStr
       ''area_m2''), (''tiles'', VStr naip_test_url)], answer = Inr VNone\<rparr>, \<lparr>op =
       ''view_vector_interactive'', pos_args = [VFrame [''geometry'', ''area_m2''] [[VStr ''C'',
       VFloat (Finite (241 / 2))]]], kw_args = [(''column'', VStr ''area_m2''), (''tiles'', VStr
       naip_test_url)], answer = Inr VNone\<rparr>, \<lparr>op = ''create_split_map'', pos_args
       = [], kw_args = [(''left_layer'', VFrame [''geometry'', ''area_m2''] [[VStr ''C'', VFloat
       (Finite (241 / 2))]]), (''right_layer'', VStr naip_test_url), (''left_args'', VDict
       [(''style'', VDict [(''color'', VStr ''red''), (''fillOpacity'', VFloat (Finite (3 /
       10)))])]), (''basemap'', VStr naip_test_url)], answer = Inr VNone\<rparr>],
       [''Using device: cpu'', ''Working directory: instance_segmentation_buildings'',
       ''Models will be saved to: instance_segmentation_buildings/models'',
       ''Output will be saved to: instance_segmentation_buildings/output'',
       ''Downloaded training raster: naip_rgb_train.tif'',
       ''Downloaded training vector: naip_train_buildings.geojson'',
       ''Downloaded test raster: naip_test.tif'', ''Created 2 training tiles'',
       ''Images saved to: instance_segmentation_buildings/images'',
       ''Labels saved to: instance_segmentation_buildings/labels'',
       ''Model created with 2000 parameters'', ''Model device: cpu'', ''Model type: <object>'',
       ''Training configuration:'', ''  images_dir: instance_segmentation_buildings/images'',
       ''  labels_dir: instance_segmentation_buildings/labels'',
       ''  output_dir: instance_segmentation_buildings/models'', ''  num_classes: 2'',
       ''  num_channels: 3'', ''  batch_size: 2'', ''  num_epochs: 20'',
       ''  learning_rate: 0.005'', ''  val_split: 0.2'', ''  visualize: True'',
       ''  device: cpu'', ''  verbose: True'', ''Starting training...'',
       ''Training completed!'',
       ''Model found at: instance_segmentation_buildings/models/best_model.pth'',
       ''Running inference with sliding window processing...'',
       ''Inference completed in 12.50 seconds!'', (''Buildings after filtering (area > 50 m'' @
       [CHR 0xC2, CHR 0xB2] @ ''): 1'')])"
  apply (simp add: run_cells instance_segmentation_nb_def inst_cells_exec run_simps)
  apply (simp add: outcome_def)
  done


subsection \<open>The calls of the notebooks\<close>

lemmas inst_cells =
  inst_install_def inst_imports_def inst_setup_def inst_urls_def inst_download_def
  inst_raster_info_def inst_view_vector_def inst_view_raster_def inst_tiles_def inst_model_def
  inst_training_config_def inst_train_def inst_plot_def inst_check_def inst_inference_def
  inst_view_result_def inst_vectorize_def inst_props_def inst_view_props_def inst_filter_def
  inst_split_map_def

lemmas lidar_cells =
  lidar_install_def lidar_imports_def lidar_urls_def lidar_download_def lidar_endpoint_def
  lidar_view_aerial_def lidar_view_hag_def lidar_stack_train_def lidar_stack_test_def
  lidar_tiles_def lidar_train_def lidar_plot_def lidar_paths_def lidar_inference_def
  lidar_vectorize_def lidar_props_def lidar_view_masks_def lidar_view_props_def lidar_filter_def
  lidar_view_filtered_def lidar_split_map_def

lemma inst_flat: "list_all flat_stmt (concat instance_segmentation_nb)"
  by (simp add: instance_segmentation_nb_def inst_cells)

lemma lidar_flat: "list_all flat_stmt (concat building_detection_lidar_nb)"
  by (simp add: building_detection_lidar_nb_def lidar_cells)

lemma inst_ops:
  "ops_block (concat instance_segmentation_nb) =
     [''get_device'', ''download_file'', ''download_file'', ''download_file'', ''get_raster_info'',
      ''view_vector_interactive'', ''view_raster'', ''export_geotiff_tiles'',
      ''get_instance_segmentation_model'', ''train_instance_segmentation_model'',
      ''plot_performance_metrics'', ''instance_segmentation'', ''view_raster'', ''orthogonalize'',
      ''add_geometric_properties'', ''view_vector_interactive'', ''view_vector_interactive'',
      ''create_split_map'']"
  by (simp add: instance_segmentation_nb_def inst_cells)

lemma lidar_ops:
  "ops_block (concat building_detection_lidar_nb) =
     [''download_file'', ''download_file'', ''download_file'', ''download_file'', ''download_file'',
      ''view_vector_interactive'', ''view_vector_interactive'', ''stack_bands'', ''stack_bands'',
      ''export_geotiff_tiles'', ''train_segmentation_model'', ''plot_performance_metrics'',
      ''semantic_segmentation'', ''orthogonalize'', ''add_geometric_properties'', ''view_raster'',
      ''view_vector_interactive'', ''view_vector_interactive'', ''create_split_map'']"
  by (simp add: building_detection_lidar_nb_def lidar_cells)

lemma run_calls:
  assumes "list_all flat_stmt (concat nb)"
  shows "prefix (map op (trace (snd (run L nb w)))) (ops_block (concat nb))"
    and "fst (run L nb w) = None \<Longrightarrow> map op (trace (snd (run L nb w))) = ops_block (concat nb)"
    and "ev \<in> set (butlast (trace (snd (run L nb w)))) \<Longrightarrow> \<not> isl (answer ev)"
    and "fst (run L nb w) = None \<Longrightarrow> ev \<in> set (trace (snd (run L nb w))) \<Longrightarrow> \<not> isl (answer ev)"
  using seq_exec_block [OF assms, of L "initial w"]
  by (auto simp: seq_def run_def initial_def)

lemma nb_flat:
  "nb = instance_segmentation_nb \<or> nb = building_detection_lidar_nb \<Longrightarrow>
   list_all flat_stmt (concat nb)"
  using inst_flat lidar_flat by auto

section \<open>Making directories\<close>















section \<open>Filtering by area\<close>

lemma same_filter: "hd lidar_filter = hd inst_filter"
  by (simp add: inst_filter_def lidar_filter_def)

lemma select_rows_map:
  "select_rows rows (map (\<lambda>r. VBool (P r)) rows) = filter P rows"
  by (induction rows) (simp_all add: select_rows_def)

lemma cell_gt_above:
  "c = VNone \<or> num_of c \<noteq> None \<Longrightarrow> cell_gt c n = Inr (above c n)"
  by (auto simp: cell_gt_def scalar_gt_def above_def num_of_def)

lemma cells_gt_map:
  "\<forall>r \<in> set rows. g r = VNone \<or> num_of (g r) \<noteq> None \<Longrightarrow>
   cells_gt (map g rows) n = Inr (map (\<lambda>r. VBool (above (g r) n)) rows)"
  by (induction rows) (simp_all add: cell_gt_above)

lemma all_bool_map: "list_all is_bool (map (\<lambda>r. VBool (P r)) rows)"
  by (simp add: list_all_iff is_bool_def)

lemma exec_filter:
  assumes "env s ''gdf_props'' = Some (VFrame cols rows)"
    and "places cols ''area_m2'' = [i]"
    and "\<forall>r \<in> set rows. cell_at i r = VNone \<or> num_of (cell_at i r) \<noteq> None"
  shows "exec L (hd inst_filter) s =
     (None, s\<lparr>env := (env s)(''gdf_filtered'' \<mapsto>
        VFrame cols (filter (\<lambda>r. above (cell_at i r) 50) rows))\<rparr>)"
proof -
  have col: "column cols rows ''area_m2'' = Inr (VSeries (map (cell_at i) rows))"
    using assms(2) by (simp add: column_def)
  have gt: "op_gt (VSeries (map (cell_at i) rows)) 50 =
      Inr (VSeries (map (\<lambda>r. VBool (above (cell_at i r) 50)) rows))"
    using cells_gt_map [of rows "cell_at i" 50] assms(3) by (simp add: op_gt_def)
  show ?thesis
    using assms(1) col gt
    by (simp add: inst_filter_def binary_def is_obj_def op_subscript_def all_bool_map
          select_rows_map assign_def)
qed


section \<open>The properties\<close>







text \<open>
  C4. The order of the calls. In every run the calls of the instance segmentation
  notebook are, in order, the first ones of: \<^verbatim>\<open>get_device\<close>, three downloads, a look at the
  training data (\<^verbatim>\<open>get_raster_info\<close>, \<^verbatim>\<open>view_vector_interactive\<close>, \<^verbatim>\<open>view_raster\<close>), tiling,
  \<^verbatim>\<open>get_instance_segmentation_model\<close>, training, \<^verbatim>\<open>plot_performance_metrics\<close>, inference, a
  view of the result raster, vectorizing (\<^verbatim>\<open>orthogonalize\<close>), the geometric properties, two
  views of the buildings, and the split map. Those of the LiDAR notebook are the first ones
  of: five downloads, two views of the training data, two calls of \<^verbatim>\<open>stack_bands\<close>, tiling,
  training, \<^verbatim>\<open>plot_performance_metrics\<close>, inference, vectorizing, the geometric properties,
  a view of the result raster, two views of the buildings, and the split map. A run that
  ends normally makes all the calls of its notebook. A call is made only after every call
  before it has returned, and returned normally: in the trace of a run no call but the
  last has raised.
\<close>

theorem pipeline_order:
  "prefix (map op (trace (snd (run L instance_segmentation_nb w))))
     [''get_device'', ''download_file'', ''download_file'', ''download_file'', ''get_raster_info'',
      ''view_vector_interactive'', ''view_raster'', ''export_geotiff_tiles'',
      ''get_instance_segmentation_model'', ''train_instance_segmentation_model'',
      ''plot_performance_metrics'', ''instance_segmentation'', ''view_raster'', ''orthogonalize'',
      ''add_geometric_properties'', ''view_vector_interactive'', ''view_vector_interactive'',
      ''create_split_map''] \<and>
   prefix (map op (trace (snd (run L building_detection_lidar_nb w))))
     [''download_file'', ''download_file'', ''download_file'', ''download_file'', ''download_file'',
      ''view_vector_interactive'', ''view_vector_interactive'', ''stack_bands'', ''stack_bands'',
      ''export_geotiff_tiles'', ''train_segmentation_model'', ''plot_performance_metrics'',
      ''semantic_segmentation'', ''orthogonalize'', ''add_geometric_properties'', ''view_raster'',
      ''view_vector_interactive'', ''view_vector_interactive'', ''create_split_map''] \<and>
   (\<forall>nb \<in> {instance_segmentation_nb, building_detection_lidar_nb}.
      (fst (run L nb w) = None \<longrightarrow>
         length (trace (snd (run L nb w))) = length (ops_block (concat nb))) \<and>
      (\<forall>ev \<in> set (butlast (trace (snd (run L nb w)))). \<not> isl (answer ev)))"
proof -
  have "length (trace (snd (run L nb w))) = length (ops_block (concat nb))"
    if "fst (run L nb w) = None" "nb = instance_segmentation_nb \<or> nb = building_detection_lidar_nb"
    for nb
    using run_calls(2) [OF nb_flat [OF that(2)], of L w] that(1) length_map by metis
  then show ?thesis
    using run_calls(1) [OF inst_flat, of L w] run_calls(1) [OF lidar_flat, of L w]
      run_calls(3) [OF inst_flat, where L = L and w = w]
      run_calls(3) [OF lidar_flat, where L = L and w = w]
    unfolding inst_ops lidar_ops by auto
qed

text \<open>On the sample library the instance segmentation notebook makes its eighteen calls,
  and none raises.\<close>

theorem pipeline_order_witness:
  "fst (run sample_lib instance_segmentation_nb sample_world) = None \<and>
   length (trace (snd (run sample_lib instance_segmentation_nb sample_world))) = 18 \<and>
   list_all (\<lambda>ev. \<not> isl (answer ev))
     (butlast (trace (snd (run sample_lib instance_segmentation_nb sample_world))))"
  using pipeline_order [of sample_lib sample_world] inst_sample_run
  by (simp add: outcome_def inst_ops)

text \<open>The steps are not only the seven of downloading, tiling, training, inference,
  vectorizing, properties and viewing the results in that order: in the run on the sample
  library the training data is viewed before it is tiled, and the result raster of the
  inference is viewed before it is vectorized.\<close>

theorem pipeline_views_between:
  "map op (take 3 (drop 5 (trace (snd (run sample_lib instance_segmentation_nb sample_world))))) =
     [''view_vector_interactive'', ''view_raster'', ''export_geotiff_tiles''] \<and>
   map (\<lambda>ev. (op ev, pos_args ev))
     (take 3 (drop 11 (trace (snd (run sample_lib instance_segmentation_nb sample_world))))) =
     [(''instance_segmentation'', []),
      (''view_raster'', [VStr ''instance_segmentation_buildings/output/instance_segmentation_result.tif'']),
      (''orthogonalize'', [VStr ''instance_segmentation_buildings/output/instance_segmentation_result.tif'',
          VStr ''building_predictions.geojson''])]"
  using inst_sample_run by (simp add: outcome_def)


text \<open>
  C9. The filtering statement \<^verbatim>\<open>gdf_filtered = gdf_props[(gdf_props["area_m2"] > 50)]\<close>, the
  same in both notebooks. Whenever \<^verbatim>\<open>gdf_props\<close> is a frame in which the label \<^verbatim>\<open>area_m2\<close> names
  exactly one column, and every cell of that column is a number or is missing (\<^verbatim>\<open>None\<close>; a
  NaN is a number), the statement ends normally, changes nothing but the binding of
  \<^verbatim>\<open>gdf_filtered\<close>, so that \<^verbatim>\<open>gdf_props\<close> is bound to the frame it was bound to, and binds
  \<^verbatim>\<open>gdf_filtered\<close> to the frame of the same columns whose rows are, in order, exactly the rows
  whose area is a number strictly greater than 50; so every row kept has such an area, and
  there are at most as many rows as before.
\<close>

theorem area_filter:
  assumes "c = hd inst_filter \<or> c = hd lidar_filter"
    and "env s ''gdf_props'' = Some (VFrame cols rows)"
    and "places cols ''area_m2'' = [i]"
    and "\<forall>r \<in> set rows. cell_at i r = VNone \<or> num_of (cell_at i r) \<noteq> None"
  shows "\<exists>kept. exec L c s = (None, s\<lparr>env := (env s)(''gdf_filtered'' \<mapsto> VFrame cols kept)\<rparr>) \<and>
           kept = filter (\<lambda>r. above (cell_at i r) 50) rows \<and>
           (\<forall>r \<in> set kept. \<exists>x. num_of (cell_at i r) = Some x \<and> flt_gt x 50) \<and>
           length kept \<le> length rows"
proof -
  have c: "c = hd inst_filter" using assms(1) same_filter by auto
  have "above v 50 \<Longrightarrow> \<exists>x. num_of v = Some x \<and> flt_gt x 50" for v
    by (auto simp: above_def split: option.splits)
  then show ?thesis
    unfolding c using exec_filter [OF assms(2-4), of L] by auto
qed

text \<open>On a frame of five buildings, of 30, 50, 120.5, unknown and 51 square metres, the
  statement keeps the third and the fifth.\<close>

theorem area_filter_witness:
  "\<exists>kept. exec sample_lib (hd lidar_filter) (frame_state [''geometry'', ''area_m2''] sample_rows) =
            (None, (frame_state [''geometry'', ''area_m2''] sample_rows)
               \<lparr>env := (env (frame_state [''geometry'', ''area_m2''] sample_rows))
                  (''gdf_filtered'' \<mapsto> VFrame [''geometry'', ''area_m2''] kept)\<rparr>) \<and>
          kept = [[VStr ''C'', VFloat (Finite (241 / 2))], [VStr ''E'', VInt 51]]"
  using area_filter [of "hd lidar_filter" "frame_state [''geometry'', ''area_m2''] sample_rows"
      "[''geometry'', ''area_m2'']" sample_rows 1 sample_lib]
  by (simp add: frame_state_def sample_rows_def places_def cell_at_def num_of_def above_def
        flt_gt_def upt_rec)

text \<open>Not every frame with a column \<^verbatim>\<open>area_m2\<close> can be filtered: where a cell of the column is
  a string, the comparison raises \<^verbatim>\<open>TypeError\<close>; and where the label names two columns of a
  frame with a third, the comparison gives a frame of booleans, and indexing by it raises
  \<^verbatim>\<open>ValueError\<close>. In both cases \<^verbatim>\<open>gdf_filtered\<close> is left unbound.\<close>

theorem area_filter_raises:
  "exec sample_lib (hd inst_filter)
     (frame_state [''geometry'', ''area_m2''] [[VStr ''A'', VStr ''large'']]) =
     (Some TypeError, frame_state [''geometry'', ''area_m2''] [[VStr ''A'', VStr ''large'']]) \<and>
   exec sample_lib (hd lidar_filter)
     (frame_state [''geometry'', ''area_m2'', ''area_m2''] [[VStr ''A'', VInt 60, VInt 70]]) =
     (Some ValueError,
      frame_state [''geometry'', ''area_m2'', ''area_m2''] [[VStr ''A'', VInt 60, VInt 70]])"
  by (simp add: inst_filter_def lidar_filter_def frame_state_def binary_def is_obj_def
        op_subscript_def column_def places_def cell_at_def op_gt_def cell_gt_def scalar_gt_def
        num_of_def flt_gt_def where_frame_def upt_rec)




end
